theory Spec2Isabelle
  imports Main "HOL-Library.Word" "HOL-Library.AList"
begin

section \<open>Bytes, errors and the wire codec\<close>

type_synonym byte = "8 word"
type_synonym bytes = "byte list"

text \<open>
  JavaScript exceptions are values. \<open>UnexpectedEndOfArray\<close> is what the decoder throws
  when it reads past the end of a frame; \<open>EngineError\<close> stands for whatever the CRDT
  engine (an external library) throws from \<open>import\<close> or \<open>export\<close>.
\<close>

datatype js_error = UnexpectedEndOfArray | EngineError string

text \<open>
  Modelled from the spec: the codec (\<open>lib0/encoding\<close>, \<open>lib0/decoding\<close> and the
  \<open>IncomingMessage\<close> wrapper around them) is not under src. The spec, sections 4.1 and
  6.1: LEB128 unsigned integers (7 bits per byte, most significant bit is the continuation
  flag), byte arrays and UTF-8 strings prefixed with their byte length as a varuint, the
  decoder a cursor over an immutable byte slice, reading past the end a decode error.
  The cursor is represented by the bytes that are still unread.
\<close>

function writeVarUint :: "nat \<Rightarrow> bytes" where
  "writeVarUint num =
     (if num > 127 then word_of_nat (128 + num mod 128) # writeVarUint (num div 128)
      else [word_of_nat num])"
  by pat_completeness auto
termination
  by (relation "measure id") auto

declare writeVarUint.simps [simp del]

definition writeVarUint8Array :: "bytes \<Rightarrow> bytes" where
  "writeVarUint8Array bs = writeVarUint (length bs) @ bs"

text \<open>A JavaScript string is represented by its UTF-8 bytes, one \<open>char\<close> per byte.\<close>

definition utf8 :: "string \<Rightarrow> bytes" where
  "utf8 s = map (\<lambda>c. word_of_nat (of_char c)) s"

definition utf8_decode :: "bytes \<Rightarrow> string" where
  "utf8_decode bs = map (\<lambda>b. char_of (unat b)) bs"

definition writeVarString :: "string \<Rightarrow> bytes" where
  "writeVarString s = writeVarUint8Array (utf8 s)"

fun readVarUint_from :: "nat \<Rightarrow> nat \<Rightarrow> bytes \<Rightarrow> js_error + (nat \<times> bytes)" where
  "readVarUint_from num mult [] = Inl UnexpectedEndOfArray"
| "readVarUint_from num mult (r # rest) =
     (let num' = num + (unat r mod 128) * mult
      in if unat r < 128 then Inr (num', rest)
         else readVarUint_from num' (mult * 128) rest)"

definition readVarUint :: "bytes \<Rightarrow> js_error + (nat \<times> bytes)" where
  "readVarUint bs = readVarUint_from 0 1 bs"

definition readVarUint8Array :: "bytes \<Rightarrow> js_error + (bytes \<times> bytes)" where
  "readVarUint8Array bs =
     (case readVarUint bs of
        Inl e \<Rightarrow> Inl e
      | Inr (len, rest) \<Rightarrow>
          if len \<le> length rest then Inr (take len rest, drop len rest)
          else Inl UnexpectedEndOfArray)"

definition readVarString :: "bytes \<Rightarrow> js_error + (string \<times> bytes)" where
  "readVarString bs =
     (case readVarUint8Array bs of
        Inl e \<Rightarrow> Inl e
      | Inr (raw, rest) \<Rightarrow> Inr (utf8_decode raw, rest))"

text \<open>
  The numeric tags of the message kinds are declared in \<open>types.ts\<close>, which is not under
  src; every function that needs them takes the numbering \<open>tagOf\<close> as a parameter.
\<close>

datatype MessageType = Auth | LoroUpdate | LoroSyncRequest | LoroSyncBatch | LoroEphemeral

section \<open>The server-side Document\<close>

text \<open>
  A \<open>Connection\<close> object (\<open>Connection.ts\<close> is not under src) is identified by
  \<open>conn_id\<close>; \<open>webSocket\<close> is the socket it was constructed with, the key under
  which \<open>addConnection\<close> files it. JavaScript's \<open>conn === origin\<close> is equality here.
\<close>

record connection =
  conn_id :: nat
  webSocket :: nat

record conn_entry =
  clients :: "nat list"
  connection :: connection

text \<open>
  The fields of \<open>Document\<close> that the Loro code paths read or write. \<open>connections\<close> is a
  JavaScript \<open>Map\<close>: insertion-ordered, one entry per key, \<open>set\<close> on a present key
  replaces the value in place (\<open>AList.update\<close>), \<open>delete\<close> removes the entry.
  \<open>loroDoc\<close> holds the state \<open>'r\<close> of the server replica, \<open>None\<close> for \<open>null\<close>.
  \<open>directConnectionsCount\<close> is a JavaScript number, so an \<open>int\<close>.
\<close>

record 'r document =
  name :: string
  loroUpdates :: "bytes list"
  loroDoc :: "'r option"
  connections :: "(nat \<times> conn_entry) list"
  directConnectionsCount :: int
  isLoading :: bool
  isDestroyed :: bool

text \<open>
  The CRDT engine is an external library. \<open>loro_import r u\<close> is \<open>r.import(u)\<close>: the
  replica afterwards, and the exception if it threw. \<open>loro_export r from\<close> is
  \<open>r.export({mode: "update", from})\<close>: it throws, or returns one byte array or a
  sequence of them (spec 6.2).
\<close>

datatype export_result = SingleUpdate bytes | UpdateList "bytes list"

record ('r, 'v) loro_engine =
  loro_import :: "'r \<Rightarrow> bytes \<Rightarrow> js_error option \<times> 'r"
  loro_export :: "'r \<Rightarrow> 'v option \<Rightarrow> js_error + export_result"

text \<open>What a method of \<open>Document\<close> does besides changing the document, in order.\<close>

datatype server_event =
    ConsoleError string js_error
  | Send connection bytes
  | OnLoroUpdate "connection option" bytes

definition new_Document :: "string \<Rightarrow> 'r document" where
  "new_Document nm =
     \<lparr>name = nm, loroUpdates = [], loroDoc = None, connections = [],
      directConnectionsCount = 0, isLoading = True, isDestroyed = False\<rparr>"

definition addConnection :: "connection \<Rightarrow> 'r document \<Rightarrow> 'r document" where
  "addConnection c d =
     d\<lparr>connections :=
         AList.update (webSocket c) \<lparr>clients = [], connection = c\<rparr> (connections d)\<rparr>"

definition hasConnection :: "connection \<Rightarrow> 'r document \<Rightarrow> bool" where
  "hasConnection c d = (map_of (connections d) (webSocket c) \<noteq> None)"

text \<open>
  \<open>removeConnection\<close> first removes the connection's awareness states (y-protocols, the
  Yjs side of the class, outside this model), then deletes the map entry.
\<close>

definition removeConnection :: "connection \<Rightarrow> 'r document \<Rightarrow> 'r document" where
  "removeConnection c d = d\<lparr>connections := AList.delete (webSocket c) (connections d)\<rparr>"

definition addDirectConnection :: "'r document \<Rightarrow> 'r document" where
  "addDirectConnection d = d\<lparr>directConnectionsCount := directConnectionsCount d + 1\<rparr>"

definition removeDirectConnection :: "'r document \<Rightarrow> 'r document" where
  "removeDirectConnection d =
     (if directConnectionsCount d > 0
      then d\<lparr>directConnectionsCount := directConnectionsCount d - 1\<rparr>
      else d)"

definition getConnectionsCount :: "'r document \<Rightarrow> int" where
  "getConnectionsCount d = int (length (connections d)) + directConnectionsCount d"

definition getConnections :: "'r document \<Rightarrow> connection list" where
  "getConnections d = map (\<lambda>data. connection data) (map snd (connections d))"

text \<open>
  Modelled from the spec: the server's \<open>OutgoingMessage\<close> class is not under src. Spec
  6.1: a frame is \<open>varstring(documentName) varuint(type) payload\<close>, the payload of
  \<open>LoroUpdate\<close> and of \<open>LoroEphemeral\<close> being \<open>varbytes\<close> of the update.
\<close>

definition writeLoroUpdate :: "(MessageType \<Rightarrow> nat) \<Rightarrow> string \<Rightarrow> bytes \<Rightarrow> bytes" where
  "writeLoroUpdate tagOf nm update =
     writeVarString nm @ writeVarUint (tagOf LoroUpdate) @ writeVarUint8Array update"

definition writeLoroEphemeral :: "(MessageType \<Rightarrow> nat) \<Rightarrow> string \<Rightarrow> bytes \<Rightarrow> bytes" where
  "writeLoroEphemeral tagOf nm update =
     writeVarString nm @ writeVarUint (tagOf LoroEphemeral) @ writeVarUint8Array update"

text \<open>
  The loop shared by \<open>handleLoroUpdate\<close> and \<open>broadcastLoroEphemeral\<close>:
  \<^verbatim>\<open>getConnections().forEach((conn) => {
     if (origin && conn === origin) return;
     conn.send(message.toUint8Array()); })\<close>
\<close>

primrec forEach_send :: "connection option \<Rightarrow> bytes \<Rightarrow> connection list \<Rightarrow> server_event list" where
  "forEach_send origin message [] = []"
| "forEach_send origin message (conn # conns) =
     (if origin \<noteq> None \<and> Some conn = origin then forEach_send origin message conns
      else Send conn message # forEach_send origin message conns)"

definition handleLoroUpdate ::
  "('r, 'v) loro_engine \<Rightarrow> (MessageType \<Rightarrow> nat) \<Rightarrow> bytes \<Rightarrow> connection option \<Rightarrow>
   'r document \<Rightarrow> 'r document \<times> server_event list" where
  "handleLoroUpdate eng tagOf update origin d =
     (let d1 = d\<lparr>loroUpdates := loroUpdates d @ [update]\<rparr>;
          (d2, logged) =
            (case loroDoc d1 of
               None \<Rightarrow> (d1, [])
             | Some r \<Rightarrow>
                 (case loro_import eng r update of
                    (None, r') \<Rightarrow> (d1\<lparr>loroDoc := Some r'\<rparr>, [])
                  | (Some e, r') \<Rightarrow>
                      (d1\<lparr>loroDoc := Some r'\<rparr>,
                       [ConsoleError ''Failed to import Loro update:'' e])));
          message = writeLoroUpdate tagOf (name d2) update;
          sent = forEach_send origin message (getConnections d2)
      in (d2, logged @ sent @ [OnLoroUpdate origin update]))"

definition wrap_export :: "export_result \<Rightarrow> bytes list" where
  "wrap_export update = (case update of SingleUpdate u \<Rightarrow> [u] | UpdateList us \<Rightarrow> us)"

text \<open>
  \<open>exportLoroUpdates\<close>. The argument is typed \<open>any\<close> and optional: \<open>None\<close> is a call
  without it, \<open>Some vv\<close> a call with the value \<open>vv\<close>. The guard
  \<open>this.loroDoc && versionVector\<close> tests truthiness, so a value that was given but is
  falsy (\<open>null\<close>, \<open>0\<close>, the empty string, \<open>false\<close>) skips the incremental export like
  no value at all; \<open>truthy\<close> says which values of \<open>'v\<close> are truthy. A replica is an
  object, hence truthy whenever it is not \<open>null\<close>.
\<close>

definition exportLoroUpdates ::
  "('r, 'v) loro_engine \<Rightarrow> ('v \<Rightarrow> bool) \<Rightarrow> 'v option \<Rightarrow> 'r document \<Rightarrow>
   bytes list \<times> server_event list" where
  "exportLoroUpdates eng truthy versionVector d =
     (let first =
            (case loroDoc d of
               None \<Rightarrow> (None, [])
             | Some r \<Rightarrow>
                 (case versionVector of
                    None \<Rightarrow> (None, [])
                  | Some vv \<Rightarrow>
                      if truthy vv then
                        (case loro_export eng r (Some vv) of
                           Inr update \<Rightarrow> (Some (wrap_export update), [])
                         | Inl e \<Rightarrow>
                             (None,
                              [ConsoleError
                                 ''Failed to export Loro updates with version vector:'' e]))
                      else (None, [])))
      in case first of
           (Some result, logged) \<Rightarrow> (result, logged)
         | (None, logged) \<Rightarrow>
             (case loroDoc d of
                Some r \<Rightarrow>
                  (case loro_export eng r None of
                     Inr update \<Rightarrow> (wrap_export update, logged)
                   | Inl e \<Rightarrow>
                       (loroUpdates d, logged @ [ConsoleError ''Failed to export Loro updates:'' e]))
              | None \<Rightarrow> (loroUpdates d, logged)))"


definition broadcastLoroEphemeral ::
  "(MessageType \<Rightarrow> nat) \<Rightarrow> bytes \<Rightarrow> connection option \<Rightarrow> 'r document \<Rightarrow>
   'r document \<times> server_event list" where
  "broadcastLoroEphemeral tagOf update origin d =
     (let message = writeLoroEphemeral tagOf (name d) update
      in (d, forEach_send origin message (getConnections d)))"

text \<open>
  The calls that change the connection map or the direct-connection counter, and a
  document's history as a list of them, applied to a freshly constructed document.
\<close>

datatype doc_call =
    AddConnection connection
  | RemoveConnection connection
  | AddDirectConnection
  | RemoveDirectConnection

fun do_call :: "doc_call \<Rightarrow> 'r document \<Rightarrow> 'r document" where
  "do_call (AddConnection c) d = addConnection c d"
| "do_call (RemoveConnection c) d = removeConnection c d"
| "do_call AddDirectConnection d = addDirectConnection d"
| "do_call RemoveDirectConnection d = removeDirectConnection d"

definition do_calls :: "doc_call list \<Rightarrow> 'r document \<Rightarrow> 'r document" where
  "do_calls calls d = foldl (\<lambda>d c. do_call c d) d calls"

text \<open>
  What the connection map of a document satisfies: one entry per socket, each connection
  filed under its own socket.
\<close>

definition connections_ok :: "'r document \<Rightarrow> bool" where
  "connections_ok d =
     (distinct (map fst (connections d)) \<and>
      list_all (\<lambda>(ws, data). webSocket (connection data) = ws) (connections d))"

definition recipients :: "server_event list \<Rightarrow> connection list" where
  "recipients evs = concat (map (\<lambda>ev. case ev of Send c m \<Rightarrow> [c] | _ \<Rightarrow> []) evs)"

definition frames_sent :: "server_event list \<Rightarrow> bytes list" where
  "frames_sent evs = concat (map (\<lambda>ev. case ev of Send c m \<Rightarrow> [m] | _ \<Rightarrow> []) evs)"

section \<open>Worked examples on the server side\<close>

text \<open>
  A numbering of the message kinds, a toy engine whose replica is the list of updates it
  has imported (it rejects the empty update, and exports from a position in that list),
  three connections and a document they have joined. The theorems hold for every
  numbering and every engine; these values serve the worked examples.
\<close>

definition demo_tagOf :: "MessageType \<Rightarrow> nat" where
  "demo_tagOf t = (case t of Auth \<Rightarrow> 2 | LoroUpdate \<Rightarrow> 9 | LoroSyncRequest \<Rightarrow> 10
                   | LoroSyncBatch \<Rightarrow> 11 | LoroEphemeral \<Rightarrow> 12)"

definition demo_engine :: "(bytes list, nat) loro_engine" where
  "demo_engine =
     \<lparr>loro_import = (\<lambda>r u. if u = [] then (Some (EngineError ''decode''), r) else (None, r @ [u])),
      loro_export = (\<lambda>r from. case from of
                        None \<Rightarrow> Inr (SingleUpdate (concat r))
                      | Some n \<Rightarrow> if n \<le> length r then Inr (UpdateList (drop n r))
                                  else Inl (EngineError ''version''))\<rparr>"

text \<open>
  The toy engine's version vectors are numbers, of which \<open>0\<close> is the falsy one; and an
  engine whose export always throws.
\<close>

definition demo_truthy :: "nat \<Rightarrow> bool" where
  "demo_truthy n = (n \<noteq> 0)"


definition alice :: connection where "alice = \<lparr>conn_id = 1, webSocket = 101\<rparr>"
definition bob :: connection where "bob = \<lparr>conn_id = 2, webSocket = 102\<rparr>"
definition carol :: connection where "carol = \<lparr>conn_id = 3, webSocket = 103\<rparr>"

definition demo_doc :: "bytes list document" where
  "demo_doc = do_calls [AddConnection alice, AddConnection bob, AddConnection carol]
                (new_Document ''d'')"

section \<open>The client-side LoroProvider\<close>

text \<open>
  \<open>forceSyncInterval: false | number\<close>. The number is a count of milliseconds, an
  \<open>int\<close> here.
\<close>

datatype forceSyncInterval = FsFalse | FsNumber int

text \<open>
  An unsubscribe function returned by \<open>subscribeLocalUpdates\<close>: its identity, and
  whether calling it throws (\<open>destroy\<close> calls it inside \<open>try\<close> with an empty
  \<open>catch\<close>).
\<close>

record unsub_fn =
  unsub_id :: nat
  unsub_throws :: bool

text \<open>
  The client's \<open>LoroDoc\<close> and \<open>EphemeralStore\<close> are objects of an external library;
  the provider probes them for optional methods. An absent method is \<open>None\<close>.
  \<open>doc_import f\<close> gives the replica after \<open>doc.import(update)\<close> and the exception if it
  threw; \<open>doc_oplogVersion\<close> throws or returns a version; \<open>subscribeLocalUpdates\<close>
  returns an unsubscribe function (\<open>Some\<close>) or something that is not a function.
\<close>

record ('r, 'v) client_doc =
  replica :: 'r
  doc_import :: "('r \<Rightarrow> bytes \<Rightarrow> js_error option \<times> 'r) option"
  doc_oplogVersion :: "('r \<Rightarrow> js_error + 'v) option"
  doc_subscribeLocalUpdates :: "unsub_fn option option"

record 'e ephemeral_store =
  store :: 'e
  eph_apply :: "('e \<Rightarrow> bytes \<Rightarrow> js_error option \<times> 'e) option"
  eph_subscribeLocalUpdates :: "unsub_fn option option"

text \<open>
  The configuration handed to the constructor (a \<open>Partial\<close>): \<open>conf_websocketProvider\<close>
  says whether a websocket provider was supplied, \<open>conf_forceSyncInterval = None\<close> that
  the key was left out, so that the default applies.
\<close>

record ('r, 'e, 'v) provider_configuration =
  conf_name :: string
  conf_doc :: "('r, 'v) client_doc option"
  conf_ephemeralStore :: "'e ephemeral_store option"
  conf_websocketProvider :: bool
  conf_forceSyncInterval :: "forceSyncInterval option"

text \<open>
  The provider's state. \<open>intervals_forceSync\<close> is the handle kept in
  \<open>this.intervals.forceSync\<close>. \<open>runtime_timers\<close> is the JavaScript runtime's table of
  active interval timers whose handler is this provider's \<open>forceSync\<close>, handle and
  period: \<open>setInterval\<close> adds a row under a fresh non-zero handle, \<open>clearInterval\<close>
  removes the row of a handle and does nothing for a handle that is not in the table.
\<close>

record ('r, 'e, 'v) provider =
  cfg_name :: string
  cfg_doc :: "('r, 'v) client_doc option"
  cfg_ephemeralStore :: "'e ephemeral_store option"
  cfg_forceSyncInterval :: forceSyncInterval
  manageSocket :: bool
  isAttached :: bool
  unsubDoc :: "unsub_fn option"
  unsubEphemeral :: "unsub_fn option"
  intervals_forceSync :: "nat option"
  runtime_timers :: "(nat \<times> int) list"

text \<open>What a method of the provider does besides changing the provider, in order.\<close>

datatype provider_event =
    Emit string
  | WsSend bytes
  | WsOn string
  | WsOff string
  | WsAttach
  | WsDetach
  | DocImport bytes
  | EphemeralApply bytes
  | ClearInterval nat
  | CallUnsub unsub_fn

definition setInterval :: "int \<Rightarrow> (nat \<times> int) list \<Rightarrow> nat \<times> (nat \<times> int) list" where
  "setInterval period timers =
     (let handle = Suc (fold max (map fst timers) 0) in (handle, timers @ [(handle, period)]))"

definition clearInterval :: "nat \<Rightarrow> (nat \<times> int) list \<Rightarrow> (nat \<times> int) list" where
  "clearInterval handle timers = filter (\<lambda>(h, period). h \<noteq> handle) timers"

definition attach :: "('r, 'e, 'v) provider \<Rightarrow> ('r, 'e, 'v) provider \<times> provider_event list" where
  "attach p =
     (if isAttached p then (p, [])
      else (p\<lparr>isAttached := True\<rparr>,
            [WsOn ''connect'', WsOn ''status'', WsOn ''open'', WsOn ''close'',
             WsOn ''disconnect'', WsOn ''destroy'', WsAttach]))"

definition detach :: "('r, 'e, 'v) provider \<Rightarrow> ('r, 'e, 'v) provider \<times> provider_event list" where
  "detach p =
     (p\<lparr>isAttached := False\<rparr>,
      [WsOff ''connect'', WsOff ''status'', WsOff ''open'', WsOff ''close'',
       WsOff ''disconnect'', WsOff ''destroy'', WsDetach])"

text \<open>
  The constructor: \<open>setConfiguration\<close> (the defaults, \<open>manageSocket\<close> when no
  websocket provider was supplied), the two subscriptions (an unsubscribe function is
  kept only if \<open>typeof unsub === "function"\<close>), the force-sync timer, and \<open>attach\<close>
  when the provider manages its socket. \<open>registerWebsocketEvents\<close> only registers the
  user's listeners on the provider's own emitter; listeners are user code, and an
  \<open>emit\<close> is recorded as an event.
\<close>

definition LoroProvider_constructor ::
  "('r, 'e, 'v) provider_configuration \<Rightarrow> ('r, 'e, 'v) provider \<times> provider_event list" where
  "LoroProvider_constructor configuration =
     (let p0 = \<lparr>cfg_name = conf_name configuration,
                cfg_doc = conf_doc configuration,
                cfg_ephemeralStore = conf_ephemeralStore configuration,
                cfg_forceSyncInterval =
                  (case conf_forceSyncInterval configuration of
                     None \<Rightarrow> FsNumber 15000 | Some v \<Rightarrow> v),
                manageSocket = (\<not> conf_websocketProvider configuration),
                isAttached = False, unsubDoc = None, unsubEphemeral = None,
                intervals_forceSync = None, runtime_timers = []\<rparr>;
          p1 = (case cfg_doc p0 of
                  None \<Rightarrow> p0
                | Some doc \<Rightarrow>
                    (case doc_subscribeLocalUpdates doc of
                       None \<Rightarrow> p0
                     | Some unsub \<Rightarrow>
                         (case unsub of None \<Rightarrow> p0 | Some f \<Rightarrow> p0\<lparr>unsubDoc := Some f\<rparr>)));
          p2 = (case cfg_ephemeralStore p1 of
                  None \<Rightarrow> p1
                | Some st \<Rightarrow>
                    (case eph_subscribeLocalUpdates st of
                       None \<Rightarrow> p1
                     | Some unsub \<Rightarrow>
                         (case unsub of None \<Rightarrow> p1 | Some f \<Rightarrow> p1\<lparr>unsubEphemeral := Some f\<rparr>)));
          p3 = (case cfg_forceSyncInterval p2 of
                  FsFalse \<Rightarrow> p2
                | FsNumber n \<Rightarrow>
                    if n \<noteq> 0
                    then (let (handle, timers) = setInterval n (runtime_timers p2)
                          in p2\<lparr>intervals_forceSync := Some handle, runtime_timers := timers\<rparr>)
                    else p2)
      in if manageSocket p3 then attach p3 else (p3, []))"

text \<open>
  \<open>send\<close>, given the bytes that \<open>new message().get(args)\<close> encodes (\<open>MessageSender\<close>
  is not under src; it hands the encoder's bytes to the websocket provider).
\<close>

definition send :: "bytes \<Rightarrow> ('r, 'e, 'v) provider \<Rightarrow> provider_event list" where
  "send frame p = (if \<not> isAttached p then [] else [Emit ''outgoingMessage'', WsSend frame])"

text \<open>\<open>args.versionJSON || ""\<close>: \<open>undefined\<close> and the empty string are both falsy.\<close>

definition LoroSyncRequestMessage_get ::
  "(MessageType \<Rightarrow> nat) \<Rightarrow> string \<Rightarrow> string option \<Rightarrow> bytes" where
  "LoroSyncRequestMessage_get tagOf documentName versionJSON =
     writeVarString documentName
     @ writeVarUint (tagOf LoroSyncRequest)
     @ writeVarString (case versionJSON of None \<Rightarrow> '''' | Some s \<Rightarrow> if s = '''' then '''' else s)"

definition LoroUpdateMessage_get :: "(MessageType \<Rightarrow> nat) \<Rightarrow> string \<Rightarrow> bytes \<Rightarrow> bytes" where
  "LoroUpdateMessage_get tagOf documentName update =
     writeVarString documentName @ writeVarUint (tagOf LoroUpdate) @ writeVarUint8Array update"

definition LoroEphemeralMessage_get :: "(MessageType \<Rightarrow> nat) \<Rightarrow> string \<Rightarrow> bytes \<Rightarrow> bytes" where
  "LoroEphemeralMessage_get tagOf documentName update =
     writeVarString documentName @ writeVarUint (tagOf LoroEphemeral) @ writeVarUint8Array update"

text \<open>
  The callbacks the constructor hands to \<open>subscribeLocalUpdates\<close> of the document and
  of the ephemeral store: each local update is sent as a \<open>LoroUpdate\<close>, respectively
  \<open>LoroEphemeral\<close>, frame.
\<close>

definition on_local_doc_update ::
  "(MessageType \<Rightarrow> nat) \<Rightarrow> bytes \<Rightarrow> ('r, 'e, 'v) provider \<Rightarrow> provider_event list" where
  "on_local_doc_update tagOf update p = send (LoroUpdateMessage_get tagOf (cfg_name p) update) p"

definition on_local_ephemeral_update ::
  "(MessageType \<Rightarrow> nat) \<Rightarrow> bytes \<Rightarrow> ('r, 'e, 'v) provider \<Rightarrow> provider_event list" where
  "on_local_ephemeral_update tagOf update p =
     send (LoroEphemeralMessage_get tagOf (cfg_name p) update) p"

text \<open>
  \<open>startSync\<close>. \<open>stringify\<close> is \<open>JSON.stringify\<close> on versions: it throws, returns
  \<open>undefined\<close> (\<open>None\<close>) or returns a string. The \<open>try\<close> covers the probe, the call of
  \<open>oplogVersion\<close> and the serialization; whatever throws leaves \<open>versionJSON\<close> undefined.
\<close>

definition startSync ::
  "(MessageType \<Rightarrow> nat) \<Rightarrow> ('v \<Rightarrow> js_error + string option) \<Rightarrow> ('r, 'e, 'v) provider \<Rightarrow>
   provider_event list" where
  "startSync tagOf stringify p =
     (let versionJSON =
            (case cfg_doc p of
               None \<Rightarrow> None
             | Some doc \<Rightarrow>
                 (case doc_oplogVersion doc of
                    None \<Rightarrow> None
                  | Some oplogVersion \<Rightarrow>
                      (case oplogVersion (replica doc) of
                         Inl e \<Rightarrow> None
                       | Inr version \<Rightarrow>
                           (case stringify version of Inl e \<Rightarrow> None | Inr json \<Rightarrow> json))))
      in send (LoroSyncRequestMessage_get tagOf (cfg_name p) versionJSON) p)"

definition forceSync ::
  "(MessageType \<Rightarrow> nat) \<Rightarrow> ('v \<Rightarrow> js_error + string option) \<Rightarrow> ('r, 'e, 'v) provider \<Rightarrow>
   provider_event list" where
  "forceSync tagOf stringify p = startSync tagOf stringify p"

text \<open>
  A tick of the runtime's interval timer \<open>handle\<close>: the runtime calls the handler,
  \<open>forceSync\<close>, if the timer is still in its table.
\<close>

definition tick ::
  "(MessageType \<Rightarrow> nat) \<Rightarrow> ('v \<Rightarrow> js_error + string option) \<Rightarrow> nat \<Rightarrow> ('r, 'e, 'v) provider \<Rightarrow>
   provider_event list" where
  "tick tagOf stringify handle p =
     (if handle \<in> set (map fst (runtime_timers p)) then forceSync tagOf stringify p else [])"

text \<open>\<open>this.configuration.doc?.import?.(update)\<close>\<close>

definition doc_import_call ::
  "bytes \<Rightarrow> ('r, 'e, 'v) provider \<Rightarrow> ('r, 'e, 'v) provider \<times> provider_event list \<times> js_error option" where
  "doc_import_call update p =
     (case cfg_doc p of
        None \<Rightarrow> (p, [], None)
      | Some doc \<Rightarrow>
          (case doc_import doc of
             None \<Rightarrow> (p, [], None)
           | Some f \<Rightarrow>
               (case f (replica doc) update of
                  (thrown, r') \<Rightarrow>
                    (p\<lparr>cfg_doc := Some (doc\<lparr>replica := r'\<rparr>)\<rparr>, [DocImport update], thrown))))"

text \<open>\<open>this.configuration.ephemeralStore?.apply?.(update)\<close>\<close>

definition ephemeral_apply_call ::
  "bytes \<Rightarrow> ('r, 'e, 'v) provider \<Rightarrow> ('r, 'e, 'v) provider \<times> provider_event list \<times> js_error option" where
  "ephemeral_apply_call update p =
     (case cfg_ephemeralStore p of
        None \<Rightarrow> (p, [], None)
      | Some st \<Rightarrow>
          (case eph_apply st of
             None \<Rightarrow> (p, [], None)
           | Some f \<Rightarrow>
               (case f (store st) update of
                  (thrown, s') \<Rightarrow>
                    (p\<lparr>cfg_ephemeralStore := Some (st\<lparr>store := s'\<rparr>)\<rparr>,
                     [EphemeralApply update], thrown))))"

text \<open>
  The loop of the \<open>LoroSyncBatch\<close> case:
  \<^verbatim>\<open>for (let i = 0; i < count; i += 1) {
     const update = message.readVarUint8Array();
     this.configuration.doc?.import?.(update); }\<close>
  An exception from the read or from \<open>import\<close> leaves the loop and the method.
\<close>

function import_batch ::
  "nat \<Rightarrow> nat \<Rightarrow> bytes \<Rightarrow> ('r, 'e, 'v) provider \<Rightarrow>
   ('r, 'e, 'v) provider \<times> provider_event list \<times> js_error option" where
  "import_batch i count unread p =
     (if i < count then
        (case readVarUint8Array unread of
           Inl e \<Rightarrow> (p, [], Some e)
         | Inr (update, unread') \<Rightarrow>
             (case doc_import_call update p of
                (p', evs, Some e) \<Rightarrow> (p', evs, Some e)
              | (p', evs, None) \<Rightarrow>
                  (case import_batch (i + 1) count unread' p' of
                     (p'', evs', thrown) \<Rightarrow> (p'', evs @ evs', thrown))))
      else (p, [], None))"
  by pat_completeness auto
termination
  by (relation "measure (\<lambda>(i, count, unread, p). count - i)") auto

declare import_batch.simps [simp del]

text \<open>
  \<open>onMessage\<close>. \<open>readAuthMessage\<close> (package \<open>@hocuspocus/common\<close>, not under src) is a
  parameter: given the unread bytes and the provider it yields the provider, its events
  and the exception if it threw. The result of \<open>onMessage\<close> is the provider afterwards,
  the events, and the exception that escaped, if any. The \<open>switch\<close> takes the first
  matching \<open>case\<close>, in the order of the source.
\<close>

definition onMessage ::
  "(MessageType \<Rightarrow> nat) \<Rightarrow>
   (bytes \<Rightarrow> ('r, 'e, 'v) provider \<Rightarrow> ('r, 'e, 'v) provider \<times> provider_event list \<times> js_error option) \<Rightarrow>
   bytes \<Rightarrow> ('r, 'e, 'v) provider \<Rightarrow>
   ('r, 'e, 'v) provider \<times> provider_event list \<times> js_error option" where
  "onMessage tagOf readAuthMessage data p =
     (case readVarString data of
        Inl e \<Rightarrow> (p, [], Some e)
      | Inr (documentName, unread) \<Rightarrow>
          (case readVarUint unread of
             Inl e \<Rightarrow> (p, [Emit ''message''], Some e)
           | Inr (type, unread') \<Rightarrow>
               (case
                  (if type = tagOf Auth then readAuthMessage unread' p
                   else if type = tagOf LoroUpdate then
                     (case readVarUint8Array unread' of
                        Inl e \<Rightarrow> (p, [], Some e)
                      | Inr (update, _) \<Rightarrow> doc_import_call update p)
                   else if type = tagOf LoroSyncBatch then
                     (case readVarUint unread' of
                        Inl e \<Rightarrow> (p, [], Some e)
                      | Inr (count, unread'') \<Rightarrow> import_batch 0 count unread'' p)
                   else if type = tagOf LoroEphemeral then
                     (case readVarUint8Array unread' of
                        Inl e \<Rightarrow> (p, [], Some e)
                      | Inr (update, _) \<Rightarrow> ephemeral_apply_call update p)
                   else (p, [], None))
                of (p', evs, thrown) \<Rightarrow> (p', Emit ''message'' # evs, thrown))))"

text \<open>
  \<open>destroy\<close>, and \<open>destroy\<close> called \<open>n\<close> times in a row with the events of all calls.
  A timer handle is an object or a positive number, so \<open>if (this.intervals.forceSync)\<close>
  holds exactly when a handle was stored; the field is not reset by \<open>destroy\<close>. The
  unsubscribe functions are called inside \<open>try\<close> with an empty \<open>catch\<close>, so whether
  they throw makes no difference to what follows.
\<close>

definition destroy :: "('r, 'e, 'v) provider \<Rightarrow> ('r, 'e, 'v) provider \<times> provider_event list" where
  "destroy p =
     (let (p1, cleared) =
            (case intervals_forceSync p of
               None \<Rightarrow> (p, [])
             | Some handle \<Rightarrow>
                 (p\<lparr>runtime_timers := clearInterval handle (runtime_timers p)\<rparr>,
                  [ClearInterval handle]));
          (p2, unsubscribed) =
            (case unsubDoc p1 of
               None \<Rightarrow> (p1, [])
             | Some f \<Rightarrow> (p1\<lparr>unsubDoc := None\<rparr>, [CallUnsub f]));
          (p3, unsubscribed') =
            (case unsubEphemeral p2 of
               None \<Rightarrow> (p2, [])
             | Some f \<Rightarrow> (p2\<lparr>unsubEphemeral := None\<rparr>, [CallUnsub f]));
          (p4, detached) = detach p3
      in (p4, Emit ''destroy'' # cleared @ unsubscribed @ unsubscribed' @ detached))"

fun destroy_times :: "nat \<Rightarrow> ('r, 'e, 'v) provider \<Rightarrow> ('r, 'e, 'v) provider \<times> provider_event list" where
  "destroy_times 0 p = (p, [])"
| "destroy_times (Suc n) p =
     (case destroy p of (p', evs) \<Rightarrow>
        (case destroy_times n p' of (p'', evs') \<Rightarrow> (p'', evs @ evs')))"

text \<open>Projections of an event list.\<close>

definition ws_frames :: "provider_event list \<Rightarrow> bytes list" where
  "ws_frames evs = concat (map (\<lambda>ev. case ev of WsSend frame \<Rightarrow> [frame] | _ \<Rightarrow> []) evs)"

definition doc_imports :: "provider_event list \<Rightarrow> bytes list" where
  "doc_imports evs = concat (map (\<lambda>ev. case ev of DocImport update \<Rightarrow> [update] | _ \<Rightarrow> []) evs)"

definition unsub_calls :: "provider_event list \<Rightarrow> unsub_fn list" where
  "unsub_calls evs = concat (map (\<lambda>ev. case ev of CallUnsub f \<Rightarrow> [f] | _ \<Rightarrow> []) evs)"

text \<open>
  Modelled from the spec: the constructor of a \<open>LoroSyncBatch\<close> frame is not under src
  (the server's \<open>OutgoingMessage\<close>). Spec 6.1: \<open>varstring(documentName) varuint(type)
  varuint(N)\<close> then \<open>N\<close> times \<open>varbytes(update)\<close>.
\<close>

definition LoroSyncBatch_frame :: "(MessageType \<Rightarrow> nat) \<Rightarrow> string \<Rightarrow> bytes list \<Rightarrow> bytes" where
  "LoroSyncBatch_frame tagOf documentName updates =
     writeVarString documentName @ writeVarUint (tagOf LoroSyncBatch)
     @ writeVarUint (length updates) @ concat (map writeVarUint8Array updates)"

text \<open>
  The version string a sync request carries, in the words of the spec: the serialized
  \<open>oplogVersion()\<close> when the replica exposes it and nothing throws, the empty string
  otherwise.
\<close>

definition requested_version ::
  "('v \<Rightarrow> js_error + string option) \<Rightarrow> ('r, 'e, 'v) provider \<Rightarrow> string" where
  "requested_version stringify p =
     (case cfg_doc p of
        Some doc \<Rightarrow>
          (case doc_oplogVersion doc of
             Some oplogVersion \<Rightarrow>
               (case oplogVersion (replica doc) of
                  Inr version \<Rightarrow>
                    (case stringify version of Inr (Some json) \<Rightarrow> json | _ \<Rightarrow> '''')
                | Inl e \<Rightarrow> '''')
           | None \<Rightarrow> '''')
      | None \<Rightarrow> '''')"

text \<open>
  The updates that a batch imports when the loop stops at the first \<open>import\<close> that
  throws: each update up to and including that one.
\<close>

fun imports_until_throw ::
  "('r \<Rightarrow> bytes \<Rightarrow> js_error option \<times> 'r) \<Rightarrow> 'r \<Rightarrow> bytes list \<Rightarrow> bytes list" where
  "imports_until_throw f r [] = []"
| "imports_until_throw f r (u # us) =
     (case f r u of
        (None, r') \<Rightarrow> u # imports_until_throw f r' us
      | (Some e, r') \<Rightarrow> [u])"

fun no_import_throws ::
  "('r \<Rightarrow> bytes \<Rightarrow> js_error option \<times> 'r) \<Rightarrow> 'r \<Rightarrow> bytes list \<Rightarrow> bool" where
  "no_import_throws f r [] = True"
| "no_import_throws f r (u # us) =
     (case f r u of
        (None, r') \<Rightarrow> no_import_throws f r' us
      | (Some e, r') \<Rightarrow> False)"


text \<open>
  Modelled from the spec: reading a \<open>LoroSyncRequest\<close> frame back (the server's
  \<open>MessageReceiver\<close> is not under src). Spec 6.1: \<open>varstring(documentName)
  varuint(type) varstring(versionVectorJSON)\<close>. The result is the three fields and the
  bytes left over.
\<close>

definition read_LoroSyncRequest :: "bytes \<Rightarrow> js_error + (string \<times> nat \<times> string \<times> bytes)" where
  "read_LoroSyncRequest data =
     (case readVarString data of
        Inl e \<Rightarrow> Inl e
      | Inr (documentName, unread) \<Rightarrow>
          (case readVarUint unread of
             Inl e \<Rightarrow> Inl e
           | Inr (type, unread') \<Rightarrow>
               (case readVarString unread' of
                  Inl e \<Rightarrow> Inl e
                | Inr (versionJSON, unread'') \<Rightarrow> Inr (documentName, type, versionJSON, unread''))))"

section \<open>Worked examples on the client side\<close>

text \<open>
  A client document over the toy engine (its version is the number of updates imported),
  a toy serializer of versions, a \<open>readAuthMessage\<close> that does nothing, and a provider
  constructed with a websocket provider supplied and no \<open>forceSyncInterval\<close> given.
\<close>

definition demo_client_doc :: "(bytes list, nat) client_doc" where
  "demo_client_doc =
     \<lparr>replica = [], doc_import = Some (loro_import demo_engine),
      doc_oplogVersion = Some (\<lambda>r. Inr (length r)),
      doc_subscribeLocalUpdates = Some (Some \<lparr>unsub_id = 1, unsub_throws = False\<rparr>)\<rparr>"

definition demo_stringify :: "nat \<Rightarrow> js_error + string option" where
  "demo_stringify n = Inr (Some (if n = 0 then ''{}'' else ''{peer}''))"

definition demo_readAuthMessage ::
  "bytes \<Rightarrow> (bytes list, unit, nat) provider \<Rightarrow>
   (bytes list, unit, nat) provider \<times> provider_event list \<times> js_error option" where
  "demo_readAuthMessage unread p = (p, [], None)"

definition demo_configuration :: "(bytes list, unit, nat) provider_configuration" where
  "demo_configuration =
     \<lparr>conf_name = ''d'', conf_doc = Some demo_client_doc, conf_ephemeralStore = None,
      conf_websocketProvider = True, conf_forceSyncInterval = None\<rparr>"

definition demo_provider :: "(bytes list, unit, nat) provider" where
  "demo_provider = fst (LoroProvider_constructor demo_configuration)"

definition demo_attached :: "(bytes list, unit, nat) provider" where
  "demo_attached = fst (attach demo_provider)"

section \<open>Codec round trips\<close>

lemma unat_continuation_byte:
  "unat (word_of_nat (128 + n mod 128) :: byte) = 128 + n mod 128"
proof -
  have "(128 + n mod 128) mod 256 = 128 + n mod 128" by simp
  then show ?thesis by (simp only: unat_of_nat take_bit_eq_mod) simp
qed

lemma unat_final_byte:
  "n \<le> 127 \<Longrightarrow> unat (word_of_nat n :: byte) = n"
  by (simp add: unat_of_nat take_bit_eq_mod)

lemma unat_char_byte:
  "unat (word_of_nat (of_char c) :: byte) = of_char c"
  using nat_of_char_less_256 [of c] by (simp add: unat_of_nat take_bit_eq_mod)

lemma readVarUint_from_continue:
  assumes "unat r = 128 + k" "k < 128"
  shows "readVarUint_from acc mult (r # rest) = readVarUint_from (acc + k * mult) (mult * 128) rest"
  using assms by (simp add: Let_def)

lemma readVarUint_from_final:
  assumes "unat r = k" "k < 128"
  shows "readVarUint_from acc mult (r # rest) = Inr (acc + k * mult, rest)"
  using assms by (simp add: Let_def)

lemma readVarUint_from_write:
  "readVarUint_from acc mult (writeVarUint n @ rest) = Inr (acc + n * mult, rest)"
proof (induction n arbitrary: acc mult rule: writeVarUint.induct)
  case (1 num)
  show ?case
  proof (cases "num > 127")
    case True
    have w: "writeVarUint num = word_of_nat (128 + num mod 128) # writeVarUint (num div 128)"
      using True by (subst writeVarUint.simps) simp
    have "readVarUint_from acc mult (writeVarUint num @ rest) =
        readVarUint_from (acc + (num mod 128) * mult) (mult * 128) (writeVarUint (num div 128) @ rest)"
      unfolding w append_Cons
      by (rule readVarUint_from_continue [OF unat_continuation_byte]) simp
    also have "\<dots> = Inr (acc + (num mod 128) * mult + (num div 128) * (mult * 128), rest)"
      by (rule "1.IH" [OF True])
    also have "acc + (num mod 128) * mult + (num div 128) * (mult * 128) = acc + num * mult"
    proof -
      have "num mod 128 + 128 * (num div 128) = num" by simp
      then have "(num mod 128 + 128 * (num div 128)) * mult = num * mult" by simp
      then show ?thesis by (simp only: add_mult_distrib mult.assoc mult.commute [of mult 128] add.assoc)
    qed
    finally show ?thesis .
  next
    case False
    then have le: "num \<le> 127" by simp
    have w: "writeVarUint num = [word_of_nat num]"
      using False by (subst writeVarUint.simps) simp
    show ?thesis
      unfolding w append_Cons append_Nil
      by (rule readVarUint_from_final [OF unat_final_byte [OF le]]) (use le in simp)
  qed
qed

lemma readVarUint_write: "readVarUint (writeVarUint n @ rest) = Inr (n, rest)"
  by (simp add: readVarUint_def readVarUint_from_write)

lemma readVarUint8Array_write:
  "readVarUint8Array (writeVarUint8Array bs @ rest) = Inr (bs, rest)"
  by (simp add: readVarUint8Array_def writeVarUint8Array_def readVarUint_write)

lemma utf8_decode_utf8: "utf8_decode (utf8 s) = s"
  by (simp add: utf8_decode_def utf8_def comp_def unat_char_byte)

lemma readVarString_write: "readVarString (writeVarString s @ rest) = Inr (s, rest)"
  by (simp add: readVarString_def writeVarString_def readVarUint8Array_write utf8_decode_utf8)
section \<open>The server-side Document: broadcast, import failures, export\<close>

lemma recipients_forEach_send:
  "recipients (forEach_send origin m cs) = filter (\<lambda>c. Some c \<noteq> origin) cs"
  by (induction cs) (auto simp: recipients_def)

lemma frames_forEach_send:
  "frames_sent (forEach_send origin m cs) = replicate (length (filter (\<lambda>c. Some c \<noteq> origin) cs)) m"
  by (induction cs) (auto simp: frames_sent_def)

lemma forEach_send_eq:
  "forEach_send origin m cs = map (\<lambda>c. Send c m) (filter (\<lambda>c. Some c \<noteq> origin) cs)"
  by (induction cs) auto

lemma recipients_append: "recipients (xs @ ys) = recipients xs @ recipients ys"
  by (simp add: recipients_def)

lemma frames_sent_append: "frames_sent (xs @ ys) = frames_sent xs @ frames_sent ys"
  by (simp add: frames_sent_def)

lemma getConnections_distinct:
  assumes "connections_ok d"
  shows "distinct (getConnections d)"
proof -
  have "map webSocket (getConnections d) = map fst (connections d)"
    using assms by (auto simp: connections_ok_def getConnections_def list_all_iff)
  moreover have "distinct (map fst (connections d))"
    using assms by (simp add: connections_ok_def)
  ultimately show ?thesis by (metis distinct_map)
qed

lemma connections_ok_new: "connections_ok (new_Document nm)"
  by (simp add: connections_ok_def new_Document_def)

lemma list_all_update:
  "list_all (\<lambda>(k, v). P k v) xs \<Longrightarrow> P k v \<Longrightarrow> list_all (\<lambda>(k, v). P k v) (AList.update k v xs)"
  by (induction xs) auto

lemma list_all_delete:
  "list_all P xs \<Longrightarrow> list_all P (AList.delete k xs)"
  by (induction xs) auto

lemma connections_ok_addConnection:
  "connections_ok d \<Longrightarrow> connections_ok (addConnection c d)"
  unfolding connections_ok_def addConnection_def
  by (simp add: distinct_update list_all_update)

lemma connections_ok_removeConnection:
  "connections_ok d \<Longrightarrow> connections_ok (removeConnection c d)"
  unfolding connections_ok_def removeConnection_def
  by (simp add: distinct_delete list_all_delete)

lemma connections_ok_do_call: "connections_ok d \<Longrightarrow> connections_ok (do_call c d)"
  by (cases c)
     (simp_all add: connections_ok_addConnection connections_ok_removeConnection,
      simp_all add: connections_ok_def addDirectConnection_def removeDirectConnection_def)

lemma connections_ok_foldl:
  "connections_ok d \<Longrightarrow> connections_ok (foldl (\<lambda>d c. do_call c d) d calls)"
  by (induction calls arbitrary: d) (simp_all add: connections_ok_do_call)

lemma connections_ok_do_calls: "connections_ok (do_calls calls (new_Document nm))"
  by (simp add: do_calls_def connections_ok_foldl connections_ok_new)

lemma recipients_simps [simp]:
  "recipients [] = []"
  "recipients (Send c m # evs) = c # recipients evs"
  "recipients (ConsoleError t e # evs) = recipients evs"
  "recipients (OnLoroUpdate origin u # evs) = recipients evs"
  by (simp_all add: recipients_def)

lemma frames_sent_simps [simp]:
  "frames_sent [] = []"
  "frames_sent (Send c m # evs) = m # frames_sent evs"
  "frames_sent (ConsoleError t e # evs) = frames_sent evs"
  "frames_sent (OnLoroUpdate origin u # evs) = frames_sent evs"
  by (simp_all add: frames_sent_def)

lemma getConnections_update [simp]:
  "getConnections (d\<lparr>loroUpdates := us\<rparr>) = getConnections d"
  "getConnections (d\<lparr>loroDoc := r\<rparr>) = getConnections d"
  by (simp_all add: getConnections_def)

lemma handleLoroUpdate_no_replica:
  assumes "loroDoc d = None"
  shows "handleLoroUpdate eng tagOf u origin d =
    (d\<lparr>loroUpdates := loroUpdates d @ [u]\<rparr>,
     forEach_send origin (writeLoroUpdate tagOf (name d) u) (getConnections d)
       @ [OnLoroUpdate origin u])"
  using assms by (simp add: handleLoroUpdate_def Let_def)

lemma handleLoroUpdate_imported:
  assumes "loroDoc d = Some r" "loro_import eng r u = (None, r')"
  shows "handleLoroUpdate eng tagOf u origin d =
    (d\<lparr>loroUpdates := loroUpdates d @ [u], loroDoc := Some r'\<rparr>,
     forEach_send origin (writeLoroUpdate tagOf (name d) u) (getConnections d)
       @ [OnLoroUpdate origin u])"
  using assms by (simp add: handleLoroUpdate_def Let_def)

lemma handleLoroUpdate_import_threw:
  assumes "loroDoc d = Some r" "loro_import eng r u = (Some e, r')"
  shows "handleLoroUpdate eng tagOf u origin d =
    (d\<lparr>loroUpdates := loroUpdates d @ [u], loroDoc := Some r'\<rparr>,
     ConsoleError ''Failed to import Loro update:'' e
       # forEach_send origin (writeLoroUpdate tagOf (name d) u) (getConnections d)
       @ [OnLoroUpdate origin u])"
  using assms by (simp add: handleLoroUpdate_def Let_def)

lemma handleLoroUpdate_cases:
  obtains "loroDoc d = None"
  | r r' where "loroDoc d = Some r" "loro_import eng r u = (None, r')"
  | r r' e where "loroDoc d = Some r" "loro_import eng r u = (Some e, r')"
proof (cases "loroDoc d")
  case None
  then show ?thesis using that by simp
next
  case (Some r)
  obtain res r' where "loro_import eng r u = (res, r')" by (cases "loro_import eng r u")
  then show ?thesis using Some that by (cases res) auto
qed

lemma handleLoroUpdate_recipients:
  "recipients (snd (handleLoroUpdate eng tagOf u origin d)) =
     filter (\<lambda>c. Some c \<noteq> origin) (getConnections d)"
  by (rule handleLoroUpdate_cases [where d=d and eng=eng and u=u])
     (simp_all add: handleLoroUpdate_no_replica handleLoroUpdate_imported
        handleLoroUpdate_import_threw recipients_append recipients_forEach_send)

lemma handleLoroUpdate_frames:
  "frames_sent (snd (handleLoroUpdate eng tagOf u origin d)) =
     replicate (length (filter (\<lambda>c. Some c \<noteq> origin) (getConnections d)))
       (writeLoroUpdate tagOf (name d) u)"
  by (rule handleLoroUpdate_cases [where d=d and eng=eng and u=u])
     (simp_all add: handleLoroUpdate_no_replica handleLoroUpdate_imported
        handleLoroUpdate_import_threw frames_sent_append frames_forEach_send)

lemma connections_handleLoroUpdate:
  "connections (fst (handleLoroUpdate eng tagOf u origin d)) = connections d"
  by (rule handleLoroUpdate_cases [where d=d and eng=eng and u=u])
     (simp_all add: handleLoroUpdate_no_replica handleLoroUpdate_imported
        handleLoroUpdate_import_threw)

lemma connections_ok_handleLoroUpdate:
  "connections_ok d \<Longrightarrow> connections_ok (fst (handleLoroUpdate eng tagOf u origin d))"
  by (simp add: connections_ok_def connections_handleLoroUpdate)

lemma filter_origin_distinct:
  assumes "distinct cs" "orig \<in> set cs"
  shows "set (filter (\<lambda>c. Some c \<noteq> Some orig) cs) = set cs - {orig}"
    and "length (filter (\<lambda>c. Some c \<noteq> Some orig) cs) = card (set cs) - 1"
    and "orig \<notin> set (filter (\<lambda>c. Some c \<noteq> Some orig) cs)"
    and "distinct (filter (\<lambda>c. Some c \<noteq> Some orig) cs)"
proof -
  show s: "set (filter (\<lambda>c. Some c \<noteq> Some orig) cs) = set cs - {orig}" by auto
  show d: "distinct (filter (\<lambda>c. Some c \<noteq> Some orig) cs)" using assms by simp
  show "orig \<notin> set (filter (\<lambda>c. Some c \<noteq> Some orig) cs)" by auto
  have "length (filter (\<lambda>c. Some c \<noteq> Some orig) cs) = card (set (filter (\<lambda>c. Some c \<noteq> Some orig) cs))"
    using distinct_card [OF d] by (simp only:)
  also have "\<dots> = card (set cs - {orig})" using s by simp
  also have "\<dots> = card (set cs) - 1" using assms by simp
  finally show "length (filter (\<lambda>c. Some c \<noteq> Some orig) cs) = card (set cs) - 1" .
qed

text \<open>
  Claim C1 (origin elision). Let \<open>C\<close> be the connections of a document whose connection
  map has one entry per socket, each connection filed under its own socket (every document
  built by \<open>addConnection\<close> and \<open>removeConnection\<close> is such a document, lemma
  \<open>connections_ok_do_calls\<close>). For every update and every origin \<open>orig \<in> C\<close>, both
  \<open>handleLoroUpdate\<close> and \<open>broadcastLoroEphemeral\<close> send the encoded frame to exactly
  the connections in \<open>C - {orig}\<close>, once each: \<open>|C| - 1\<close> sends, none to \<open>orig\<close>.
  With the origin absent the frame goes to every connection in \<open>C\<close>.
\<close>

theorem origin_elision:
  "(connections_ok d \<and> orig \<in> set (getConnections d) \<longrightarrow>
      (let sent = snd (handleLoroUpdate eng tagOf u (Some orig) d);
           relayed = snd (broadcastLoroEphemeral tagOf u (Some orig) d)
       in set (recipients sent) = set (getConnections d) - {orig}
        \<and> distinct (recipients sent)
        \<and> length (recipients sent) = card (set (getConnections d)) - 1
        \<and> orig \<notin> set (recipients sent)
        \<and> frames_sent sent =
            replicate (card (set (getConnections d)) - 1) (writeLoroUpdate tagOf (name d) u)
        \<and> set (recipients relayed) = set (getConnections d) - {orig}
        \<and> distinct (recipients relayed)
        \<and> length (recipients relayed) = card (set (getConnections d)) - 1
        \<and> orig \<notin> set (recipients relayed)
        \<and> frames_sent relayed =
            replicate (card (set (getConnections d)) - 1) (writeLoroEphemeral tagOf (name d) u)))
   \<and> recipients (snd (handleLoroUpdate eng tagOf u None d)) = getConnections d
   \<and> frames_sent (snd (handleLoroUpdate eng tagOf u None d)) =
        replicate (length (getConnections d)) (writeLoroUpdate tagOf (name d) u)
   \<and> recipients (snd (broadcastLoroEphemeral tagOf u None d)) = getConnections d
   \<and> frames_sent (snd (broadcastLoroEphemeral tagOf u None d)) =
        replicate (length (getConnections d)) (writeLoroEphemeral tagOf (name d) u)"
proof -
  have eph_r: "recipients (snd (broadcastLoroEphemeral tagOf u origin d)) =
      filter (\<lambda>c. Some c \<noteq> origin) (getConnections d)" for origin
    by (simp add: broadcastLoroEphemeral_def Let_def recipients_forEach_send)
  have eph_f: "frames_sent (snd (broadcastLoroEphemeral tagOf u origin d)) =
      replicate (length (filter (\<lambda>c. Some c \<noteq> origin) (getConnections d)))
        (writeLoroEphemeral tagOf (name d) u)" for origin
    by (simp add: broadcastLoroEphemeral_def Let_def frames_forEach_send)
  have absent: "recipients (snd (handleLoroUpdate eng tagOf u None d)) = getConnections d"
    "frames_sent (snd (handleLoroUpdate eng tagOf u None d)) =
        replicate (length (getConnections d)) (writeLoroUpdate tagOf (name d) u)"
    "recipients (snd (broadcastLoroEphemeral tagOf u None d)) = getConnections d"
    "frames_sent (snd (broadcastLoroEphemeral tagOf u None d)) =
        replicate (length (getConnections d)) (writeLoroEphemeral tagOf (name d) u)"
    by (simp_all add: handleLoroUpdate_recipients handleLoroUpdate_frames eph_r eph_f)
  have present: "let sent = snd (handleLoroUpdate eng tagOf u (Some orig) d);
           relayed = snd (broadcastLoroEphemeral tagOf u (Some orig) d)
       in set (recipients sent) = set (getConnections d) - {orig}
        \<and> distinct (recipients sent)
        \<and> length (recipients sent) = card (set (getConnections d)) - 1
        \<and> orig \<notin> set (recipients sent)
        \<and> frames_sent sent =
            replicate (card (set (getConnections d)) - 1) (writeLoroUpdate tagOf (name d) u)
        \<and> set (recipients relayed) = set (getConnections d) - {orig}
        \<and> distinct (recipients relayed)
        \<and> length (recipients relayed) = card (set (getConnections d)) - 1
        \<and> orig \<notin> set (recipients relayed)
        \<and> frames_sent relayed =
            replicate (card (set (getConnections d)) - 1) (writeLoroEphemeral tagOf (name d) u)"
    if ok: "connections_ok d" and mem: "orig \<in> set (getConnections d)"
  proof -
    note f = filter_origin_distinct [OF getConnections_distinct [OF ok] mem]
    show ?thesis
      unfolding Let_def handleLoroUpdate_recipients handleLoroUpdate_frames eph_r eph_f
      using f by simp
  qed
  show ?thesis using absent present by blast
qed

lemma getConnections_demo_doc: "getConnections demo_doc = [alice, bob, carol]"
  by (simp add: demo_doc_def do_calls_def new_Document_def addConnection_def getConnections_def
      alice_def bob_def carol_def)

lemma demo_distinct: "alice \<noteq> bob" "alice \<noteq> carol" "bob \<noteq> carol"
  by (simp_all add: alice_def bob_def carol_def)

theorem origin_elision_witness:
  "connections_ok demo_doc \<and> alice \<in> set (getConnections demo_doc)
   \<and> set (recipients (snd (handleLoroUpdate demo_engine demo_tagOf [1, 2, 3] (Some alice) demo_doc)))
       = set (getConnections demo_doc) - {alice}
   \<and> length (recipients (snd (handleLoroUpdate demo_engine demo_tagOf [1, 2, 3] (Some alice) demo_doc)))
       = card (set (getConnections demo_doc)) - 1
   \<and> alice \<notin> set (recipients (snd (broadcastLoroEphemeral demo_tagOf [1, 2, 3] (Some alice) demo_doc)))
   \<and> recipients (snd (handleLoroUpdate demo_engine demo_tagOf [1, 2, 3] None demo_doc))
       = getConnections demo_doc
   \<and> getConnections demo_doc = [alice, bob, carol]"
proof -
  have ok: "connections_ok demo_doc"
    by (simp add: demo_doc_def connections_ok_do_calls)
  have mem: "alice \<in> set (getConnections demo_doc)"
    by (simp add: getConnections_demo_doc)
  note T = origin_elision [of demo_doc alice demo_engine demo_tagOf "[1, 2, 3]"]
  have present: "connections_ok demo_doc \<and> alice \<in> set (getConnections demo_doc)"
    using ok mem by (rule conjI)
  from T present getConnections_demo_doc show ?thesis
    unfolding Let_def by blast
qed

text \<open>
  Claim C2 (a failed import is logged, not fatal). If the server replica's \<open>import\<close>
  throws inside \<open>handleLoroUpdate\<close>, the error is logged with \<open>console.error\<close> and
  processing continues: the update is appended to \<open>loroUpdates\<close>, it is sent to every
  connection other than the origin, and the \<open>onLoroUpdate\<close> callback is invoked last.
\<close>

theorem import_failure_still_ships:
  assumes "loroDoc d = Some r" and "loro_import eng r u = (Some e, r')"
  shows "loroUpdates (fst (handleLoroUpdate eng tagOf u origin d)) = loroUpdates d @ [u]
       \<and> connections (fst (handleLoroUpdate eng tagOf u origin d)) = connections d
       \<and> snd (handleLoroUpdate eng tagOf u origin d) =
           ConsoleError ''Failed to import Loro update:'' e
             # map (\<lambda>c. Send c (writeLoroUpdate tagOf (name d) u))
                 (filter (\<lambda>c. Some c \<noteq> origin) (getConnections d))
             @ [OnLoroUpdate origin u]"
  by (simp add: handleLoroUpdate_import_threw [OF assms] forEach_send_eq)

lemma demo_doc_fields:
  "name demo_doc = ''d''" "loroUpdates demo_doc = []" "loroDoc demo_doc = None"
  by (simp_all add: demo_doc_def do_calls_def new_Document_def addConnection_def)

theorem import_failure_still_ships_witness:
  "loroDoc (demo_doc\<lparr>loroDoc := Some []\<rparr>) = Some []
   \<and> loro_import demo_engine [] [] = (Some (EngineError ''decode''), [])
   \<and> loroUpdates (fst (handleLoroUpdate demo_engine demo_tagOf [] (Some alice) (demo_doc\<lparr>loroDoc := Some []\<rparr>))) = [[]]
   \<and> snd (handleLoroUpdate demo_engine demo_tagOf [] (Some alice) (demo_doc\<lparr>loroDoc := Some []\<rparr>)) =
       [ConsoleError ''Failed to import Loro update:'' (EngineError ''decode''),
        Send bob (writeLoroUpdate demo_tagOf ''d'' []),
        Send carol (writeLoroUpdate demo_tagOf ''d'' []),
        OnLoroUpdate (Some alice) []]"
proof -
  let ?d = "demo_doc\<lparr>loroDoc := Some []\<rparr>"
  have a: "loroDoc ?d = Some []" by simp
  have b: "loro_import demo_engine [] [] = (Some (EngineError ''decode''), [])"
    by (simp add: demo_engine_def)
  have c: "getConnections ?d = [alice, bob, carol]"
    by (simp only: getConnections_update getConnections_demo_doc)
  have f: "filter (\<lambda>c. Some c \<noteq> Some alice) [alice, bob, carol] = [bob, carol]"
    using demo_distinct by simp
  have n: "name ?d = ''d''" "loroUpdates ?d = []"
    by (simp_all add: demo_doc_fields)
  note T = import_failure_still_ships [OF a b, of demo_tagOf "Some alice"]
  have T': "loroUpdates (fst (handleLoroUpdate demo_engine demo_tagOf [] (Some alice) ?d)) = [[]]
    \<and> snd (handleLoroUpdate demo_engine demo_tagOf [] (Some alice) ?d) =
       [ConsoleError ''Failed to import Loro update:'' (EngineError ''decode''),
        Send bob (writeLoroUpdate demo_tagOf ''d'' []),
        Send carol (writeLoroUpdate demo_tagOf ''d'' []),
        OnLoroUpdate (Some alice) []]"
    using T unfolding c f n by simp
  show ?thesis using a b T' by blast
qed

text \<open>
  Claim C3 (ephemeral payloads are not stored). \<open>broadcastLoroEphemeral\<close> returns the
  document it was given: \<open>loroUpdates\<close>, the replica and the connection map are the same
  before and after, its only effects are the sends to the connections other than the
  origin, and a later \<open>exportLoroUpdates\<close> returns what it would have returned before.
\<close>

theorem ephemeral_never_stored:
  "broadcastLoroEphemeral tagOf E origin d =
     (d, map (\<lambda>c. Send c (writeLoroEphemeral tagOf (name d) E))
           (filter (\<lambda>c. Some c \<noteq> origin) (getConnections d)))
   \<and> loroUpdates (fst (broadcastLoroEphemeral tagOf E origin d)) = loroUpdates d
   \<and> loroDoc (fst (broadcastLoroEphemeral tagOf E origin d)) = loroDoc d
   \<and> connections (fst (broadcastLoroEphemeral tagOf E origin d)) = connections d
   \<and> exportLoroUpdates eng truthy versionVector (fst (broadcastLoroEphemeral tagOf E origin d)) =
       exportLoroUpdates eng truthy versionVector d"
  by (simp add: broadcastLoroEphemeral_def Let_def forEach_send_eq)

theorem ephemeral_never_stored_witness:
  "broadcastLoroEphemeral demo_tagOf [7] (Some alice) demo_doc =
     (demo_doc, [Send bob (writeLoroEphemeral demo_tagOf ''d'' [7]),
                 Send carol (writeLoroEphemeral demo_tagOf ''d'' [7])])
   \<and> loroUpdates (fst (broadcastLoroEphemeral demo_tagOf [7] (Some alice) demo_doc)) = []"
proof -
  have f: "filter (\<lambda>c. Some c \<noteq> Some alice) [alice, bob, carol] = [bob, carol]"
    using demo_distinct by simp
  note T = ephemeral_never_stored [of demo_tagOf "[7]" "Some alice" demo_doc demo_engine demo_truthy None]
  have "broadcastLoroEphemeral demo_tagOf [7] (Some alice) demo_doc =
     (demo_doc, map (\<lambda>c. Send c (writeLoroEphemeral demo_tagOf (name demo_doc) [7]))
           (filter (\<lambda>c. Some c \<noteq> Some alice) (getConnections demo_doc)))"
    using T by blast
  then show ?thesis
    unfolding getConnections_demo_doc f by (simp add: demo_doc_fields)
qed











lemma directConnectionsCount_do_call:
  "0 \<le> directConnectionsCount d \<Longrightarrow> 0 \<le> directConnectionsCount (do_call c d)"
  by (cases c)
     (simp_all add: addConnection_def removeConnection_def addDirectConnection_def
        removeDirectConnection_def)

lemma directConnectionsCount_foldl:
  "0 \<le> directConnectionsCount d \<Longrightarrow>
   0 \<le> directConnectionsCount (foldl (\<lambda>d c. do_call c d) d calls)"
  by (induction calls arbitrary: d) (simp_all add: directConnectionsCount_do_call)

lemma length_connections_card:
  assumes "connections_ok d"
  shows "length (connections d) = card (set (getConnections d))"
proof -
  have "length (getConnections d) = card (set (getConnections d))"
    using distinct_card [OF getConnections_distinct [OF assms]] by simp
  then show ?thesis by (simp add: getConnections_def)
qed

text \<open>
  Claim C10 (connection counts). After any sequence of \<open>addConnection\<close>,
  \<open>removeConnection\<close>, \<open>addDirectConnection\<close> and \<open>removeDirectConnection\<close> calls on
  a freshly constructed document, \<open>directConnectionsCount\<close> is not negative,
  \<open>removeDirectConnection\<close> decrements it only when it is positive, and
  \<open>getConnectionsCount\<close> is the size of the connection map (the number of registered
  connections) plus \<open>directConnectionsCount\<close>.
\<close>

theorem connections_count_invariant:
  "let d = do_calls calls (new_Document nm)
   in 0 \<le> directConnectionsCount d
    \<and> getConnectionsCount d = int (length (connections d)) + directConnectionsCount d
    \<and> getConnectionsCount d = int (card (set (getConnections d))) + directConnectionsCount d
    \<and> 0 \<le> directConnectionsCount (removeDirectConnection d)
    \<and> directConnectionsCount (removeDirectConnection d) =
        (if directConnectionsCount d > 0 then directConnectionsCount d - 1
         else directConnectionsCount d)"
proof -
  define d :: "'a document" where "d = do_calls calls (new_Document nm)"
  have "0 \<le> directConnectionsCount (new_Document nm :: 'a document)"
    by (simp add: new_Document_def)
  then have nonneg: "0 \<le> directConnectionsCount d"
    unfolding d_def do_calls_def by (rule directConnectionsCount_foldl)
  have ok: "connections_ok d"
    unfolding d_def by (rule connections_ok_do_calls)
  have size: "length (connections d) = card (set (getConnections d))"
    by (rule length_connections_card [OF ok])
  have total: "getConnectionsCount d = int (length (connections d)) + directConnectionsCount d"
    by (simp add: getConnectionsCount_def)
  have dec: "directConnectionsCount (removeDirectConnection d) =
        (if directConnectionsCount d > 0 then directConnectionsCount d - 1
         else directConnectionsCount d)"
    by (simp add: removeDirectConnection_def)
  have nonneg': "0 \<le> directConnectionsCount (removeDirectConnection d)"
    using nonneg by (simp add: removeDirectConnection_def)
  have "0 \<le> directConnectionsCount d
    \<and> getConnectionsCount d = int (length (connections d)) + directConnectionsCount d
    \<and> getConnectionsCount d = int (card (set (getConnections d))) + directConnectionsCount d
    \<and> 0 \<le> directConnectionsCount (removeDirectConnection d)
    \<and> directConnectionsCount (removeDirectConnection d) =
        (if directConnectionsCount d > 0 then directConnectionsCount d - 1
         else directConnectionsCount d)"
    using nonneg total size dec nonneg' by simp
  then show ?thesis unfolding Let_def d_def .
qed

theorem connections_count_invariant_witness:
  "directConnectionsCount
     (do_calls [RemoveDirectConnection, AddDirectConnection, AddConnection alice,
                RemoveDirectConnection, RemoveDirectConnection]
        (new_Document ''d'' :: bytes list document)) = 0
   \<and> getConnectionsCount
     (do_calls [RemoveDirectConnection, AddDirectConnection, AddConnection alice,
                RemoveDirectConnection, RemoveDirectConnection]
        (new_Document ''d'' :: bytes list document)) = 1"
proof -
  let ?d = "do_calls [RemoveDirectConnection, AddDirectConnection, AddConnection alice,
                RemoveDirectConnection, RemoveDirectConnection]
        (new_Document ''d'' :: bytes list document)"
  have c: "directConnectionsCount ?d = 0" "length (connections ?d) = 1"
    by (simp_all add: do_calls_def new_Document_def addConnection_def addDirectConnection_def
        removeDirectConnection_def)
  note T = connections_count_invariant [of "[RemoveDirectConnection, AddDirectConnection,
      AddConnection alice, RemoveDirectConnection, RemoveDirectConnection]" "''d''",
      where ?'a = "bytes list"]
  from T have "getConnectionsCount ?d = int (length (connections ?d)) + directConnectionsCount ?d"
    unfolding Let_def by blast
  then have "getConnectionsCount ?d = 1" by (simp only: c)
  then show ?thesis using c by simp
qed
section \<open>The client-side LoroProvider: sync requests, inbound frames, timer, destroy\<close>


lemma ws_frames_send: "ws_frames (send frame p) = (if isAttached p then [frame] else [])"
  by (simp add: send_def ws_frames_def)

lemma startSync_send:
  "startSync tagOf stringify p =
     send (writeVarString (cfg_name p) @ writeVarUint (tagOf LoroSyncRequest)
           @ writeVarString (requested_version stringify p)) p"
  by (simp add: startSync_def requested_version_def LoroSyncRequestMessage_get_def Let_def
      split: option.splits sum.splits)

lemma read_LoroSyncRequest_frame:
  "read_LoroSyncRequest (writeVarString nm @ writeVarUint t @ writeVarString v) = Inr (nm, t, v, [])"
proof -
  have "readVarString (writeVarString v) = Inr (v, [])"
    using readVarString_write [of v "[]"] by simp
  then show ?thesis
    by (simp add: read_LoroSyncRequest_def readVarString_write readVarUint_write)
qed

text \<open>
  Claim C6 (layout of a sync request). The only frames \<open>startSync\<close> (and \<open>forceSync\<close>,
  which is \<open>startSync\<close>) hands to the socket are \<open>LoroSyncRequest\<close> frames, one per call
  while the provider is attached. Each consists of, in order, \<open>varstring(documentName)\<close>,
  \<open>varuint\<close> of the \<open>LoroSyncRequest\<close> tag and \<open>varstring(versionJSON)\<close>, and reads back
  as exactly these three fields with no byte left over; \<open>versionJSON\<close> is the serialized
  \<open>oplogVersion()\<close> when the replica exposes it and nothing throws, and the empty string
  otherwise (also when the serializer returns \<open>undefined\<close>): a version string is always
  written.
\<close>

theorem sync_request_frame:
  "ws_frames (startSync tagOf stringify p) =
     (if isAttached p
      then [writeVarString (cfg_name p) @ writeVarUint (tagOf LoroSyncRequest)
            @ writeVarString (requested_version stringify p)]
      else [])
   \<and> forceSync tagOf stringify p = startSync tagOf stringify p
   \<and> (\<forall>frame \<in> set (ws_frames (startSync tagOf stringify p)).
         read_LoroSyncRequest frame =
           Inr (cfg_name p, tagOf LoroSyncRequest, requested_version stringify p, []))"
  by (simp add: startSync_send ws_frames_send forceSync_def read_LoroSyncRequest_frame)


lemma demo_provider_fields:
  "cfg_name demo_provider = ''d''"
  "cfg_doc demo_provider = Some demo_client_doc"
  "cfg_ephemeralStore demo_provider = None"
  "isAttached demo_provider = False"
  "unsubDoc demo_provider = Some \<lparr>unsub_id = 1, unsub_throws = False\<rparr>"
  "unsubEphemeral demo_provider = None"
  "intervals_forceSync demo_provider = Some 1"
  "runtime_timers demo_provider = [(1, 15000)]"
  by (simp_all add: demo_provider_def LoroProvider_constructor_def demo_configuration_def
      demo_client_doc_def setInterval_def Let_def)

lemma demo_attached_eq: "demo_attached = demo_provider\<lparr>isAttached := True\<rparr>"
  by (simp add: demo_attached_def attach_def demo_provider_fields)

lemma demo_attached_fields:
  "cfg_name demo_attached = ''d''"
  "cfg_doc demo_attached = Some demo_client_doc"
  "isAttached demo_attached = True"
  by (simp_all add: demo_attached_eq demo_provider_fields)

lemma requested_version_demo: "requested_version demo_stringify demo_attached = ''{}''"
  by (simp add: requested_version_def demo_attached_fields demo_client_doc_def demo_stringify_def)

theorem sync_request_frame_witness:
  "ws_frames (startSync demo_tagOf demo_stringify demo_attached) =
     [writeVarString ''d'' @ writeVarUint 10 @ writeVarString ''{}'']
   \<and> writeVarString ''d'' @ writeVarUint 10 @ writeVarString ''{}''
       \<in> set (ws_frames (startSync demo_tagOf demo_stringify demo_attached))
   \<and> read_LoroSyncRequest (writeVarString ''d'' @ writeVarUint 10 @ writeVarString ''{}'') =
       Inr (''d'', 10, ''{}'', [])"
proof -
  have t: "demo_tagOf LoroSyncRequest = 10" by (simp add: demo_tagOf_def)
  note T = sync_request_frame [of demo_tagOf demo_stringify demo_attached,
      unfolded demo_attached_fields requested_version_demo t if_True]
  from T show ?thesis by simp
qed


lemma doc_imports_simps [simp]:
  "doc_imports [] = []"
  "doc_imports (DocImport u # evs) = u # doc_imports evs"
  "doc_imports (Emit t # evs) = doc_imports evs"
  "doc_imports (xs @ ys) = doc_imports xs @ doc_imports ys"
  by (simp_all add: doc_imports_def)

lemma doc_import_call_exposed:
  assumes "cfg_doc p = Some doc" "doc_import doc = Some f" "f (replica doc) u = (thrown, r')"
  shows "doc_import_call u p =
    (p\<lparr>cfg_doc := Some (doc\<lparr>replica := r'\<rparr>)\<rparr>, [DocImport u], thrown)"
  using assms by (simp add: doc_import_call_def)

lemma doc_import_call_absent:
  assumes "cfg_doc p = None \<or> (\<exists>doc. cfg_doc p = Some doc \<and> doc_import doc = None)"
  shows "doc_import_call u p = (p, [], None)"
  using assms by (auto simp: doc_import_call_def)

lemma import_batch_done: "import_batch i i unread p = (p, [], None)"
  by (subst import_batch.simps) simp

lemma import_batch_step:
  "import_batch i (i + Suc n) (writeVarUint8Array u @ unread) p =
     (case doc_import_call u p of
        (p', evs, Some e) \<Rightarrow> (p', evs, Some e)
      | (p', evs, None) \<Rightarrow>
          (case import_batch (Suc i) (Suc i + n) unread p' of
             (p'', evs', thrown) \<Rightarrow> (p'', evs @ evs', thrown)))"
  by (subst import_batch.simps) (simp add: readVarUint8Array_write)

lemma import_batch_exposed:
  assumes "cfg_doc p = Some doc" "doc_import doc = Some f"
  shows "doc_imports (fst (snd (import_batch i (i + length us)
            (concat (map writeVarUint8Array us) @ rest) p)))
          = imports_until_throw f (replica doc) us
       \<and> (snd (snd (import_batch i (i + length us)
            (concat (map writeVarUint8Array us) @ rest) p)) = None)
          = no_import_throws f (replica doc) us"
  using assms
proof (induction us arbitrary: i p doc)
  case Nil
  then show ?case by (simp add: import_batch_done)
next
  case (Cons u us)
  obtain thrown r' where call: "f (replica doc) u = (thrown, r')"
    by (cases "f (replica doc) u")
  let ?p' = "p\<lparr>cfg_doc := Some (doc\<lparr>replica := r'\<rparr>)\<rparr>"
  have dic: "doc_import_call u p = (?p', [DocImport u], thrown)"
    by (rule doc_import_call_exposed [OF Cons.prems call])
  have step: "import_batch i (i + length (u # us))
      (concat (map writeVarUint8Array (u # us)) @ rest) p =
     (case thrown of
        Some e \<Rightarrow> (?p', [DocImport u], Some e)
      | None \<Rightarrow>
          (case import_batch (Suc i) (Suc i + length us)
                  (concat (map writeVarUint8Array us) @ rest) ?p' of
             (p'', evs', thrown') \<Rightarrow> (p'', [DocImport u] @ evs', thrown')))"
    using import_batch_step [of i "length us" u "concat (map writeVarUint8Array us) @ rest" p]
    by (cases thrown) (simp_all add: dic)
  show ?case
  proof (cases thrown)
    case (Some e)
    then show ?thesis unfolding step using call by simp
  next
    case None
    have ih: "doc_imports (fst (snd (import_batch (Suc i) (Suc i + length us)
            (concat (map writeVarUint8Array us) @ rest) ?p')))
          = imports_until_throw f r' us
       \<and> (snd (snd (import_batch (Suc i) (Suc i + length us)
            (concat (map writeVarUint8Array us) @ rest) ?p')) = None)
          = no_import_throws f r' us"
      using Cons.IH [of ?p' "doc\<lparr>replica := r'\<rparr>" "Suc i"] Cons.prems by simp
    show ?thesis
      unfolding step using None call ih
      by (auto split: prod.splits)
  qed
qed

lemma import_batch_absent:
  assumes "cfg_doc p = None \<or> (\<exists>doc. cfg_doc p = Some doc \<and> doc_import doc = None)"
  shows "import_batch i (i + length us) (concat (map writeVarUint8Array us) @ rest) p
          = (p, [], None)"
  using assms
proof (induction us arbitrary: i)
  case Nil
  then show ?case by (simp add: import_batch_done)
next
  case (Cons u us)
  have "import_batch i (i + Suc (length us))
      (writeVarUint8Array u @ concat (map writeVarUint8Array us) @ rest) p =
      (p, [], None)"
    unfolding import_batch_step doc_import_call_absent [OF Cons.prems]
    using Cons.IH [OF Cons.prems, of "Suc i"] by simp
  then show ?case by simp
qed

lemma imports_until_throw_take:
  "take (length (imports_until_throw f r us)) us = imports_until_throw f r us"
  by (induction us arbitrary: r) (auto split: prod.splits option.splits)

lemma imports_until_throw_all:
  "no_import_throws f r us \<Longrightarrow> imports_until_throw f r us = us"
  by (induction us arbitrary: r) (auto split: prod.splits option.splits)

lemma onMessage_LoroSyncBatch:
  assumes "tagOf LoroSyncBatch \<noteq> tagOf Auth" "tagOf LoroSyncBatch \<noteq> tagOf LoroUpdate"
  shows "onMessage tagOf readAuthMessage (LoroSyncBatch_frame tagOf nm us) p =
    (case import_batch 0 (0 + length us) (concat (map writeVarUint8Array us) @ []) p of
       (p', evs, thrown) \<Rightarrow> (p', Emit ''message'' # evs, thrown))"
  using assms
  by (simp add: onMessage_def LoroSyncBatch_frame_def readVarString_write readVarUint_write)

lemma onMessage_batch_exposed:
  assumes "tagOf LoroSyncBatch \<noteq> tagOf Auth" "tagOf LoroSyncBatch \<noteq> tagOf LoroUpdate"
    and "cfg_doc p = Some doc" "doc_import doc = Some f"
  shows "doc_imports (fst (snd (onMessage tagOf readAuthMessage (LoroSyncBatch_frame tagOf nm us) p)))
          = imports_until_throw f (replica doc) us"
    and "(snd (snd (onMessage tagOf readAuthMessage (LoroSyncBatch_frame tagOf nm us) p)) = None)
          = no_import_throws f (replica doc) us"
  using import_batch_exposed [OF assms(3,4), of 0 us "[]"]
  unfolding onMessage_LoroSyncBatch [OF assms(1,2)]
  by (auto split: prod.splits)


text \<open>
  Claim C5, as amended. On an inbound \<open>LoroSyncBatch\<close> frame carrying the updates
  \<open>us\<close>, a provider whose replica exposes \<open>import\<close> reads the count and then the
  updates one at a time, calling \<open>doc.import\<close> on each update as it is read, in the
  order of the frame, and stops at the first \<open>import\<close> that throws: the updates
  imported are a prefix of \<open>us\<close>, those up to and including the first one whose import
  throws. When no import throws, all \<open>N\<close> updates are imported, the i-th of the batch
  i-th, and \<open>onMessage\<close> returns normally; otherwise the exception escapes.
\<close>

theorem batch_imports_in_order:
  assumes "tagOf LoroSyncBatch \<noteq> tagOf Auth" "tagOf LoroSyncBatch \<noteq> tagOf LoroUpdate"
    and "cfg_doc p = Some doc" "doc_import doc = Some f"
  shows "doc_imports (fst (snd (onMessage tagOf readAuthMessage (LoroSyncBatch_frame tagOf nm us) p)))
           = imports_until_throw f (replica doc) us
       \<and> take (length (imports_until_throw f (replica doc) us)) us
           = imports_until_throw f (replica doc) us
       \<and> (no_import_throws f (replica doc) us \<longrightarrow>
            doc_imports (fst (snd (onMessage tagOf readAuthMessage (LoroSyncBatch_frame tagOf nm us) p)))
              = us
          \<and> snd (snd (onMessage tagOf readAuthMessage (LoroSyncBatch_frame tagOf nm us) p)) = None)
       \<and> (\<not> no_import_throws f (replica doc) us \<longrightarrow>
            snd (snd (onMessage tagOf readAuthMessage (LoroSyncBatch_frame tagOf nm us) p)) \<noteq> None)"
  using onMessage_batch_exposed [OF assms, of readAuthMessage nm us]
    imports_until_throw_take [of f "replica doc" us]
    imports_until_throw_all [of f "replica doc" us]
  by simp

lemma demo_tags:
  "demo_tagOf Auth = 2" "demo_tagOf LoroUpdate = 9" "demo_tagOf LoroSyncRequest = 10"
  "demo_tagOf LoroSyncBatch = 11" "demo_tagOf LoroEphemeral = 12"
  by (simp_all add: demo_tagOf_def)

lemma demo_client_doc_fields:
  "replica demo_client_doc = []"
  "doc_import demo_client_doc = Some (loro_import demo_engine)"
  by (simp_all add: demo_client_doc_def)

lemma demo_import:
  "loro_import demo_engine r [] = (Some (EngineError ''decode''), r)"
  "u \<noteq> [] \<Longrightarrow> loro_import demo_engine r u = (None, r @ [u])"
  by (simp_all add: demo_engine_def)

theorem batch_imports_in_order_witness:
  "demo_tagOf LoroSyncBatch \<noteq> demo_tagOf Auth \<and> demo_tagOf LoroSyncBatch \<noteq> demo_tagOf LoroUpdate
   \<and> cfg_doc demo_provider = Some demo_client_doc
   \<and> doc_import demo_client_doc = Some (loro_import demo_engine)
   \<and> no_import_throws (loro_import demo_engine) (replica demo_client_doc) [[1], [2]]
   \<and> doc_imports (fst (snd (onMessage demo_tagOf demo_readAuthMessage
         (LoroSyncBatch_frame demo_tagOf ''d'' [[1], [2]]) demo_provider))) = [[1], [2]]
   \<and> snd (snd (onMessage demo_tagOf demo_readAuthMessage
         (LoroSyncBatch_frame demo_tagOf ''d'' [[1], [2]]) demo_provider)) = None"
proof -
  have a: "demo_tagOf LoroSyncBatch \<noteq> demo_tagOf Auth" by (simp add: demo_tags)
  have b: "demo_tagOf LoroSyncBatch \<noteq> demo_tagOf LoroUpdate" by (simp add: demo_tags)
  have c: "cfg_doc demo_provider = Some demo_client_doc" by (rule demo_provider_fields)
  have d: "doc_import demo_client_doc = Some (loro_import demo_engine)"
    by (rule demo_client_doc_fields)
  have e: "no_import_throws (loro_import demo_engine) (replica demo_client_doc) [[1], [2]]"
    by (simp add: demo_import)
  note T = batch_imports_in_order [OF a b c d, of demo_readAuthMessage "''d''" "[[1], [2]]"]
  from T e have "doc_imports (fst (snd (onMessage demo_tagOf demo_readAuthMessage
         (LoroSyncBatch_frame demo_tagOf ''d'' [[1], [2]]) demo_provider))) = [[1], [2]]
   \<and> snd (snd (onMessage demo_tagOf demo_readAuthMessage
         (LoroSyncBatch_frame demo_tagOf ''d'' [[1], [2]]) demo_provider)) = None"
    by blast
  then show ?thesis using a b c d e by blast
qed

text \<open>
  Claim C5 as first stated (all \<open>N\<close> updates of every batch are read and imported) fails:
  the batch of the empty update followed by \<open>[5]\<close> announces two updates, the toy engine
  rejects the first, the exception leaves the loop, and \<open>[5]\<close> is never read or imported.
\<close>

theorem batch_import_stops_at_throw:
  "doc_imports (fst (snd (onMessage demo_tagOf demo_readAuthMessage
       (LoroSyncBatch_frame demo_tagOf ''d'' [[], [5]]) demo_provider))) = [[]]
   \<and> doc_imports (fst (snd (onMessage demo_tagOf demo_readAuthMessage
       (LoroSyncBatch_frame demo_tagOf ''d'' [[], [5]]) demo_provider))) \<noteq> [[], [5]]
   \<and> snd (snd (onMessage demo_tagOf demo_readAuthMessage
       (LoroSyncBatch_frame demo_tagOf ''d'' [[], [5]]) demo_provider)) \<noteq> None"
proof -
  have a: "demo_tagOf LoroSyncBatch \<noteq> demo_tagOf Auth" by (simp add: demo_tags)
  have b: "demo_tagOf LoroSyncBatch \<noteq> demo_tagOf LoroUpdate" by (simp add: demo_tags)
  have c: "cfg_doc demo_provider = Some demo_client_doc" by (rule demo_provider_fields)
  have d: "doc_import demo_client_doc = Some (loro_import demo_engine)"
    by (rule demo_client_doc_fields)
  have i: "imports_until_throw (loro_import demo_engine) (replica demo_client_doc) [[], [5]] = [[]]"
    by (simp add: demo_import)
  have imported: "doc_imports (fst (snd (onMessage demo_tagOf demo_readAuthMessage
       (LoroSyncBatch_frame demo_tagOf ''d'' [[], [5]]) demo_provider))) = [[]]"
    using onMessage_batch_exposed(1) [OF a b c d, of demo_readAuthMessage "''d''" "[[], [5]]"] i
    by simp
  have n: "\<not> no_import_throws (loro_import demo_engine) (replica demo_client_doc) [[], [5]]"
    by (simp add: demo_import)
  have thrown: "snd (snd (onMessage demo_tagOf demo_readAuthMessage
       (LoroSyncBatch_frame demo_tagOf ''d'' [[], [5]]) demo_provider)) \<noteq> None"
    using onMessage_batch_exposed(2) [OF a b c d, of demo_readAuthMessage "''d''" "[[], [5]]"] n
    by simp
  show ?thesis using imported thrown by simp
qed

lemma onMessage_no_case:
  assumes "readVarString data = Inr (nm, unread)" "readVarUint unread = Inr (t, unread')"
    and "t \<noteq> tagOf Auth" "t \<noteq> tagOf LoroUpdate" "t \<noteq> tagOf LoroSyncBatch"
        "t \<noteq> tagOf LoroEphemeral"
  shows "onMessage tagOf readAuthMessage data p = (p, [Emit ''message''], None)"
  using assms by (simp add: onMessage_def)

text \<open>
  Claim C7, as amended. For every inbound frame whose type tag is none of \<open>Auth\<close>,
  \<open>LoroUpdate\<close>, \<open>LoroSyncBatch\<close> and \<open>LoroEphemeral\<close> (every unknown tag, and
  \<open>LoroSyncRequest\<close>), whatever follows the tag, the provider's \<open>onMessage\<close> ignores
  the frame: it emits the \<open>message\<close> event, changes nothing, imports and applies
  nothing, and no exception escapes.
\<close>

theorem unknown_tag_ignored:
  assumes "t \<noteq> tagOf Auth" "t \<noteq> tagOf LoroUpdate" "t \<noteq> tagOf LoroSyncBatch"
          "t \<noteq> tagOf LoroEphemeral"
  shows "onMessage tagOf readAuthMessage (writeVarString nm @ writeVarUint t @ payload) p
           = (p, [Emit ''message''], None)"
  by (rule onMessage_no_case [OF readVarString_write readVarUint_write assms])

theorem unknown_tag_ignored_witness:
  "(99::nat) \<noteq> demo_tagOf Auth \<and> 99 \<noteq> demo_tagOf LoroUpdate \<and> 99 \<noteq> demo_tagOf LoroSyncBatch
   \<and> 99 \<noteq> demo_tagOf LoroEphemeral
   \<and> onMessage demo_tagOf demo_readAuthMessage
        (writeVarString ''d'' @ writeVarUint 99 @ [1, 2, 3]) demo_attached
      = (demo_attached, [Emit ''message''], None)"
proof -
  have a: "99 \<noteq> demo_tagOf Auth" "99 \<noteq> demo_tagOf LoroUpdate" "99 \<noteq> demo_tagOf LoroSyncBatch"
    "99 \<noteq> demo_tagOf LoroEphemeral"
    by (simp_all add: demo_tags)
  show ?thesis
    using unknown_tag_ignored [OF a, of demo_readAuthMessage "''d''" "[1, 2, 3]" demo_attached] a
    by blast
qed

text \<open>
  Claim C7 as first stated (an unknown tag is a protocol error) fails on the provider: tag
  77 is no message kind of the numbering, and \<open>onMessage\<close> returns normally, having only
  emitted the \<open>message\<close> event.
\<close>

theorem unknown_tag_no_protocol_error:
  "(77::nat) \<noteq> demo_tagOf Auth \<and> 77 \<noteq> demo_tagOf LoroUpdate \<and> 77 \<noteq> demo_tagOf LoroSyncRequest
   \<and> 77 \<noteq> demo_tagOf LoroSyncBatch \<and> 77 \<noteq> demo_tagOf LoroEphemeral
   \<and> onMessage demo_tagOf demo_readAuthMessage (writeVarString ''d'' @ writeVarUint 77 @ [])
        demo_provider
      = (demo_provider, [Emit ''message''], None)"
proof -
  have a: "77 \<noteq> demo_tagOf Auth" "77 \<noteq> demo_tagOf LoroUpdate" "77 \<noteq> demo_tagOf LoroSyncBatch"
    "77 \<noteq> demo_tagOf LoroEphemeral"
    by (simp_all add: demo_tags)
  have b: "77 \<noteq> demo_tagOf LoroSyncRequest" by (simp add: demo_tags)
  have "onMessage demo_tagOf demo_readAuthMessage (writeVarString ''d'' @ writeVarUint 77 @ [])
        demo_provider = (demo_provider, [Emit ''message''], None)"
    by (rule onMessage_no_case [OF readVarString_write readVarUint_write a])
  then show ?thesis using a b by blast
qed


lemma setInterval_first: "setInterval n [] = (1, [(1, n)])"
  by (simp add: setInterval_def)

lemma attach_fields:
  "runtime_timers (fst (attach p)) = runtime_timers p"
  "intervals_forceSync (fst (attach p)) = intervals_forceSync p"
  "isAttached (fst (attach p)) = True"
  by (simp_all add: attach_def)

lemma constructor_timer:
  "runtime_timers (fst (LoroProvider_constructor c)) =
     (case conf_forceSyncInterval c of
        None \<Rightarrow> [(1, 15000)]
      | Some FsFalse \<Rightarrow> []
      | Some (FsNumber n) \<Rightarrow> if n \<noteq> 0 then [(1, n)] else [])"
  "intervals_forceSync (fst (LoroProvider_constructor c)) =
     (case conf_forceSyncInterval c of
        None \<Rightarrow> Some 1
      | Some FsFalse \<Rightarrow> None
      | Some (FsNumber n) \<Rightarrow> if n \<noteq> 0 then Some 1 else None)"
  "isAttached (fst (LoroProvider_constructor c)) = (\<not> conf_websocketProvider c)"
  by (simp_all add: LoroProvider_constructor_def Let_def setInterval_first attach_fields
      split: option.splits forceSyncInterval.splits)

lemma tick_frames:
  "ws_frames (tick tagOf stringify h q) =
     (if h \<in> set (map fst (runtime_timers q)) \<and> isAttached q
      then [writeVarString (cfg_name q) @ writeVarUint (tagOf LoroSyncRequest)
            @ writeVarString (requested_version stringify q)]
      else [])"
proof (cases "h \<in> set (map fst (runtime_timers q))")
  case True
  then have "tick tagOf stringify h q = startSync tagOf stringify q"
    by (simp add: tick_def forceSync_def)
  then show ?thesis using True by (simp add: startSync_send ws_frames_send)
next
  case False
  then have "tick tagOf stringify h q = []" by (simp add: tick_def)
  then show ?thesis using False by (simp add: ws_frames_def)
qed

text \<open>
  Claim C8, as amended. If \<open>forceSyncInterval\<close> is a positive number (15000 when the
  key is left out), constructing a provider registers one interval timer with that
  period whose handler is \<open>forceSync\<close>; a tick of a registered timer sends one
  \<open>LoroSyncRequest\<close> for the provider's document if the provider is attached at that
  moment, and sends nothing while it is detached (\<open>send\<close> returns at once). The
  provider is attached after construction exactly when no websocket provider was
  supplied. If \<open>forceSyncInterval\<close> is \<open>false\<close> no timer is registered, before or
  after \<open>attach\<close>, and a tick sends nothing.
\<close>

theorem force_sync_timer:
  "(conf_forceSyncInterval c = Some (FsNumber n) \<and> 0 < n \<longrightarrow>
      runtime_timers (fst (LoroProvider_constructor c)) = [(1, n)]
    \<and> intervals_forceSync (fst (LoroProvider_constructor c)) = Some 1)
   \<and> (conf_forceSyncInterval c = None \<longrightarrow>
      runtime_timers (fst (LoroProvider_constructor c)) = [(1, 15000)]
    \<and> intervals_forceSync (fst (LoroProvider_constructor c)) = Some 1)
   \<and> (conf_forceSyncInterval c = Some FsFalse \<longrightarrow>
      runtime_timers (fst (LoroProvider_constructor c)) = []
    \<and> intervals_forceSync (fst (LoroProvider_constructor c)) = None
    \<and> runtime_timers (fst (attach (fst (LoroProvider_constructor c)))) = []
    \<and> tick tagOf stringify h (fst (LoroProvider_constructor c)) = []
    \<and> tick tagOf stringify h (fst (attach (fst (LoroProvider_constructor c)))) = [])
   \<and> isAttached (fst (LoroProvider_constructor c)) = (\<not> conf_websocketProvider c)
   \<and> (h \<in> set (map fst (runtime_timers q)) \<longrightarrow>
      tick tagOf stringify h q = forceSync tagOf stringify q
    \<and> ws_frames (tick tagOf stringify h q) =
        (if isAttached q
         then [writeVarString (cfg_name q) @ writeVarUint (tagOf LoroSyncRequest)
               @ writeVarString (requested_version stringify q)]
         else []))"
proof -
  have pos: "runtime_timers (fst (LoroProvider_constructor c)) = [(1, n)]
    \<and> intervals_forceSync (fst (LoroProvider_constructor c)) = Some 1"
    if "conf_forceSyncInterval c = Some (FsNumber n)" "0 < n"
    using that by (simp add: constructor_timer)
  have dflt: "runtime_timers (fst (LoroProvider_constructor c)) = [(1, 15000)]
    \<and> intervals_forceSync (fst (LoroProvider_constructor c)) = Some 1"
    if "conf_forceSyncInterval c = None"
    using that by (simp add: constructor_timer)
  have off: "runtime_timers (fst (LoroProvider_constructor c)) = []
    \<and> intervals_forceSync (fst (LoroProvider_constructor c)) = None
    \<and> runtime_timers (fst (attach (fst (LoroProvider_constructor c)))) = []
    \<and> tick tagOf stringify h (fst (LoroProvider_constructor c)) = []
    \<and> tick tagOf stringify h (fst (attach (fst (LoroProvider_constructor c)))) = []"
    if "conf_forceSyncInterval c = Some FsFalse"
    using that by (simp add: constructor_timer attach_fields tick_def)
  have att: "isAttached (fst (LoroProvider_constructor c)) = (\<not> conf_websocketProvider c)"
    by (rule constructor_timer)
  have tk: "tick tagOf stringify h q = forceSync tagOf stringify q
    \<and> ws_frames (tick tagOf stringify h q) =
        (if isAttached q
         then [writeVarString (cfg_name q) @ writeVarUint (tagOf LoroSyncRequest)
               @ writeVarString (requested_version stringify q)]
         else [])"
    if "h \<in> set (map fst (runtime_timers q))"
    using that tick_frames [of tagOf stringify h q] by (simp add: tick_def)
  show ?thesis using pos dflt off att tk by blast
qed

theorem force_sync_timer_witness:
  "conf_forceSyncInterval (demo_configuration\<lparr>conf_forceSyncInterval := Some (FsNumber 100)\<rparr>)
     = Some (FsNumber 100)
   \<and> (0::int) < 100
   \<and> runtime_timers (fst (LoroProvider_constructor
        (demo_configuration\<lparr>conf_forceSyncInterval := Some (FsNumber 100)\<rparr>))) = [(1, 100)]
   \<and> 1 \<in> set (map fst (runtime_timers demo_attached))
   \<and> ws_frames (tick demo_tagOf demo_stringify 1 demo_attached) =
       [writeVarString ''d'' @ writeVarUint 10 @ writeVarString ''{}'']"
proof -
  let ?c = "demo_configuration\<lparr>conf_forceSyncInterval := Some (FsNumber 100)\<rparr>"
  have a: "conf_forceSyncInterval ?c = Some (FsNumber 100)" by simp
  have b: "(0::int) < 100" by simp
  have m: "1 \<in> set (map fst (runtime_timers demo_attached))"
    by (simp add: demo_attached_eq demo_provider_fields)
  note T = force_sync_timer [of ?c 100 demo_tagOf demo_stringify 1 demo_attached]
  from T a b have t1: "runtime_timers (fst (LoroProvider_constructor ?c)) = [(1, 100)]"
    by blast
  from T m have "ws_frames (tick demo_tagOf demo_stringify 1 demo_attached) =
        (if isAttached demo_attached
         then [writeVarString (cfg_name demo_attached) @ writeVarUint (demo_tagOf LoroSyncRequest)
               @ writeVarString (requested_version demo_stringify demo_attached)]
         else [])"
    by blast
  then have t2: "ws_frames (tick demo_tagOf demo_stringify 1 demo_attached) =
       [writeVarString ''d'' @ writeVarUint 10 @ writeVarString ''{}'']"
    by (simp only: demo_attached_fields requested_version_demo demo_tags if_True)
  show ?thesis using a b t1 m t2 by blast
qed

text \<open>
  Claim C8 as first stated (every tick re-sends a sync request) fails: a provider
  constructed with a websocket provider supplied has its 15000 ms timer registered but is
  not attached, and a tick of that timer sends nothing.
\<close>

theorem detached_tick_sends_nothing:
  "conf_forceSyncInterval demo_configuration = None
   \<and> runtime_timers (fst (LoroProvider_constructor demo_configuration)) = [(1, 15000)]
   \<and> intervals_forceSync (fst (LoroProvider_constructor demo_configuration)) = Some 1
   \<and> tick demo_tagOf demo_stringify 1 (fst (LoroProvider_constructor demo_configuration)) = []
   \<and> ws_frames (tick demo_tagOf demo_stringify 1
        (fst (LoroProvider_constructor demo_configuration))) = []"
proof -
  have c: "conf_forceSyncInterval demo_configuration = None"
    by (simp add: demo_configuration_def)
  have d: "isAttached demo_provider = False" by (rule demo_provider_fields)
  have t: "tick demo_tagOf demo_stringify 1 demo_provider = []"
    by (simp add: tick_def forceSync_def startSync_send send_def d)
  show ?thesis
    using c t demo_provider_fields(7,8)
    by (simp add: demo_provider_def [symmetric] ws_frames_def)
qed

lemma clearInterval_idem: "clearInterval h (clearInterval h ts) = clearInterval h ts"
  by (simp add: clearInterval_def)

lemma unsub_calls_simps [simp]:
  "unsub_calls [] = []"
  "unsub_calls (CallUnsub f # evs) = f # unsub_calls evs"
  "unsub_calls (Emit t # evs) = unsub_calls evs"
  "unsub_calls (ClearInterval h # evs) = unsub_calls evs"
  "unsub_calls (WsOff t # evs) = unsub_calls evs"
  "unsub_calls (WsDetach # evs) = unsub_calls evs"
  "unsub_calls (xs @ ys) = unsub_calls xs @ unsub_calls ys"
  by (simp_all add: unsub_calls_def)

lemma destroy_state:
  "fst (destroy p) =
     p\<lparr>runtime_timers :=
         (case intervals_forceSync p of
            None \<Rightarrow> runtime_timers p
          | Some h \<Rightarrow> clearInterval h (runtime_timers p)),
       unsubDoc := None, unsubEphemeral := None, isAttached := False\<rparr>"
  by (cases "intervals_forceSync p"; cases "unsubDoc p"; cases "unsubEphemeral p")
     (simp_all add: destroy_def detach_def)

lemma destroy_unsub_calls:
  "unsub_calls (snd (destroy p)) =
     (case unsubDoc p of None \<Rightarrow> [] | Some f \<Rightarrow> [f])
     @ (case unsubEphemeral p of None \<Rightarrow> [] | Some f \<Rightarrow> [f])"
  by (cases "intervals_forceSync p"; cases "unsubDoc p"; cases "unsubEphemeral p")
     (simp_all add: destroy_def detach_def)

lemma destroy_twice: "fst (destroy (fst (destroy p))) = fst (destroy p)"
  by (cases "intervals_forceSync p") (simp_all add: destroy_state clearInterval_idem)

lemma destroy_again_no_unsub: "unsub_calls (snd (destroy (fst (destroy p)))) = []"
  by (simp add: destroy_unsub_calls destroy_state)

lemma destroy_times_after_first:
  "fst (destroy_times n (fst (destroy p))) = fst (destroy p)
   \<and> unsub_calls (snd (destroy_times n (fst (destroy p)))) = []"
proof (induction n)
  case 0
  then show ?case by simp
next
  case (Suc n)
  then show ?case
    using destroy_twice [of p] destroy_again_no_unsub [of p]
    by (simp split: prod.splits) (metis fst_conv snd_conv)
qed

text \<open>
  Claim C9 (\<open>destroy\<close> is idempotent). Over any sequence of one or more \<open>destroy\<close>
  calls, the unsubscribe function kept from the doc subscription and the one kept from
  the ephemeral subscription are each called exactly once (in the first call, whether or
  not they throw, and never again); a second \<open>destroy\<close> leaves the provider, its timer
  and subscription state included, as the first one left it: no registered timer under
  the provider's handle, no unsubscribe function kept, detached.
\<close>

theorem destroy_idempotent:
  "fst (destroy (fst (destroy p))) = fst (destroy p)
   \<and> fst (destroy_times (Suc n) p) = fst (destroy p)
   \<and> unsub_calls (snd (destroy_times (Suc n) p)) =
       (case unsubDoc p of None \<Rightarrow> [] | Some f \<Rightarrow> [f])
       @ (case unsubEphemeral p of None \<Rightarrow> [] | Some f \<Rightarrow> [f])
   \<and> unsub_calls (snd (destroy (fst (destroy p)))) = []
   \<and> unsubDoc (fst (destroy p)) = None
   \<and> unsubEphemeral (fst (destroy p)) = None
   \<and> isAttached (fst (destroy p)) = False
   \<and> (case intervals_forceSync p of
         None \<Rightarrow> True
       | Some h \<Rightarrow> h \<notin> set (map fst (runtime_timers (fst (destroy p)))))"
proof -
  have many: "fst (destroy_times (Suc n) p) = fst (destroy p)
    \<and> unsub_calls (snd (destroy_times (Suc n) p)) =
       (case unsubDoc p of None \<Rightarrow> [] | Some f \<Rightarrow> [f])
       @ (case unsubEphemeral p of None \<Rightarrow> [] | Some f \<Rightarrow> [f])"
    using destroy_times_after_first [of n p] destroy_unsub_calls [of p]
    by (cases "destroy p"; cases "destroy_times n (fst (destroy p))") simp
  have fields: "unsubDoc (fst (destroy p)) = None \<and> unsubEphemeral (fst (destroy p)) = None
    \<and> isAttached (fst (destroy p)) = False"
    by (simp add: destroy_state)
  have timer: "(case intervals_forceSync p of
         None \<Rightarrow> True
       | Some h \<Rightarrow> h \<notin> set (map fst (runtime_timers (fst (destroy p)))))"
    by (cases "intervals_forceSync p") (auto simp: destroy_state clearInterval_def)
  show ?thesis
    using destroy_twice [of p] destroy_again_no_unsub [of p] many fields timer by blast
qed

theorem destroy_idempotent_witness:
  "unsubDoc demo_attached = Some \<lparr>unsub_id = 1, unsub_throws = False\<rparr>
   \<and> unsub_calls (snd (destroy_times (Suc 2) demo_attached))
       = [\<lparr>unsub_id = 1, unsub_throws = False\<rparr>]
   \<and> fst (destroy (fst (destroy demo_attached))) = fst (destroy demo_attached)
   \<and> runtime_timers (fst (destroy demo_attached)) = []"
proof -
  have u: "unsubDoc demo_attached = Some \<lparr>unsub_id = 1, unsub_throws = False\<rparr>"
    "unsubEphemeral demo_attached = None"
    by (simp_all add: demo_attached_eq demo_provider_fields)
  have t: "runtime_timers (fst (destroy demo_attached)) = []"
    by (simp add: destroy_state demo_attached_eq demo_provider_fields clearInterval_def)
  note T = destroy_idempotent [of demo_attached 2]
  from T have "unsub_calls (snd (destroy_times (Suc 2) demo_attached)) =
       (case unsubDoc demo_attached of None \<Rightarrow> [] | Some f \<Rightarrow> [f])
       @ (case unsubEphemeral demo_attached of None \<Rightarrow> [] | Some f \<Rightarrow> [f])"
    by blast
  then have c: "unsub_calls (snd (destroy_times (Suc 2) demo_attached))
       = [\<lparr>unsub_id = 1, unsub_throws = False\<rparr>]"
    by (simp only: u) simp
  from T have i: "fst (destroy (fst (destroy demo_attached))) = fst (destroy demo_attached)"
    by blast
  show ?thesis using u c i t by blast
qed


end
